theory Spec2Isabelle
  imports Complex_Main
begin

section \<open>Exceptions and array primitives\<close>

text \<open>
  The equilibrium reader works on numpy arrays of floating-point numbers. Here an array
  of one axis is a \<open>real list\<close>: the samples are idealised as real numbers, so that
  rounding, infinities and NaN are outside the model. A raised exception is the left
  summand of the result; the message is kept, and the two bounds that
  \<^verbatim>\<open>'... range of the data: [{}, {}]s.'.format(...)\<close> prints are kept as numbers.
\<close>

datatype message =
    Text string
  | TimeRange real real

datatype error =
    IndexError message
  | ValueError message
  | TypeError message
  | AttributeError message
  | UDAException message

definition sbind :: "error + 'a \<Rightarrow> ('a \<Rightarrow> error + 'b) \<Rightarrow> error + 'b" where
  "sbind m f = (case m of Inl e \<Rightarrow> Inl e | Inr x \<Rightarrow> f x)"

text \<open>\<^verbatim>\<open>array.min()\<close> and \<^verbatim>\<open>array.max()\<close>: numpy refuses the reduction of an
  empty array with a ValueError.\<close>

definition zero_size :: "string \<Rightarrow> error" where
  "zero_size which = ValueError (Text (''zero-size array to reduction operation '' @ which
      @ '' which has no identity''))"

fun amin :: "real list \<Rightarrow> error + real" where
  "amin [] = Inl (zero_size ''minimum'')"
| "amin (x # xs) = Inr (fold min xs x)"

fun amax :: "real list \<Rightarrow> error + real" where
  "amax [] = Inl (zero_size ''maximum'')"
| "amax (x # xs) = Inr (fold max xs x)"

text \<open>\<^verbatim>\<open>array[i]\<close> for an index \<open>i \<ge> 0\<close> (every index computed below is a natural
  number): numpy raises IndexError at and beyond the length of the axis.\<close>

definition out_of_bounds :: error where
  "out_of_bounds = IndexError (Text ''index is out of bounds for axis 0'')"

definition getitem :: "'a list \<Rightarrow> nat \<Rightarrow> error + 'a" where
  "getitem xs i = (if i < length xs then Inr (xs ! i) else Inl out_of_bounds)"

text \<open>The same read on a Python list.\<close>

definition list_index_error :: error where
  "list_index_error = IndexError (Text ''list index out of range'')"

definition list_getitem :: "'a list \<Rightarrow> nat \<Rightarrow> error + 'a" where
  "list_getitem xs i = (if i < length xs then Inr (xs ! i) else Inl list_index_error)"

text \<open>\<^verbatim>\<open>np.searchsorted(array, value, side="left")\<close> is numpy's bisection: it halves
  the window \<open>[lo, hi)\<close> and moves the lower end past every probed sample that is
  smaller than the value.\<close>

function bisect_left :: "real list \<Rightarrow> real \<Rightarrow> nat \<Rightarrow> nat \<Rightarrow> nat" where
  "bisect_left a v lo hi =
     (if lo < hi then
        (let mid = lo + (hi - lo) div 2 in
         if a ! mid < v then bisect_left a v (mid + 1) hi else bisect_left a v lo mid)
      else lo)"
  by pat_completeness auto
termination
  by (relation "measure (\<lambda>(a, v, lo, hi). hi - lo)") auto

declare bisect_left.simps [simp del]

definition searchsorted :: "real list \<Rightarrow> real \<Rightarrow> nat" where
  "searchsorted a v = bisect_left a v 0 (length a)"

section \<open>The nearest-index resolver\<close>

text \<open>
  \<^verbatim>\<open>
  def _find_nearest(array, value):
      if value < array.min() or value > array.max():
          raise IndexError("Requested value is outside the range of the data.")
      index = np.searchsorted(array, value, side="left")
      if (value - array[index])**2 < (value - array[index + 1])**2:
          return index
      else:
          return index + 1
  \<close>
  The same body stands in \<open>MASTEquilibrium\<close> and in \<open>MASTUEquilibrium\<close>.
\<close>

definition outside_range :: error where
  "outside_range = IndexError (Text ''Requested value is outside the range of the data.'')"

definition find_nearest :: "real list \<Rightarrow> real \<Rightarrow> error + nat" where
  "find_nearest array v =
     sbind (amin array) (\<lambda>lo.
       if v < lo then Inl outside_range
       else sbind (amax array) (\<lambda>hi.
         if v > hi then Inl outside_range
         else
           (let index = searchsorted array v in
            sbind (getitem array index) (\<lambda>x.
            sbind (getitem array (index + 1)) (\<lambda>y.
              if (v - x)\<^sup>2 < (v - y)\<^sup>2 then Inr index else Inr (index + 1))))))"

section \<open>The boundary polygon sanitiser\<close>

text \<open>
  \<^verbatim>\<open>
  def _process_efit_lcfs_polygon(poly_r, poly_z):
      if poly_r.shape != poly_z.shape:
          raise ValueError("EFIT LCFS polygon coordinate arrays are inconsistent in length.")
      n = poly_r.shape[0]
      if n < 2:
          raise ValueError("EFIT LCFS polygon coordinate contain less than 2 points.")
      unique = (poly_r != poly_r[0]) | (poly_z != poly_z[0])
      unique[0] = True  # first point must be included!
      poly_r = poly_r[unique]
      poly_z = poly_z[unique]
      poly_coords = np.zeros((len(poly_r), 2))
      poly_coords[:, 0] = poly_r
      poly_coords[:, 1] = poly_z
      return poly_coords
  \<close>
  The result, an array of N rows and 2 columns, is the list of its rows. Boolean-mask
  indexing \<^verbatim>\<open>a[mask]\<close> keeps the entries whose mask is set.
\<close>

fun compress :: "bool list \<Rightarrow> 'a list \<Rightarrow> 'a list" where
  "compress (b # bs) (x # xs) = (if b then x # compress bs xs else compress bs xs)"
| "compress _ _ = []"

definition inconsistent_length :: error where
  "inconsistent_length =
     ValueError (Text ''EFIT LCFS polygon coordinate arrays are inconsistent in length.'')"

definition less_than_2_points :: error where
  "less_than_2_points =
     ValueError (Text ''EFIT LCFS polygon coordinate contain less than 2 points.'')"

definition process_efit_lcfs_polygon ::
    "real list \<Rightarrow> real list \<Rightarrow> error + (real \<times> real) list" where
  "process_efit_lcfs_polygon poly_r poly_z =
     (if length poly_r \<noteq> length poly_z then Inl inconsistent_length
      else
        (let n = length poly_r in
         if n < 2 then Inl less_than_2_points
         else
           (let unique = map2 (\<lambda>r z. r \<noteq> poly_r ! 0 \<or> z \<noteq> poly_z ! 0) poly_r poly_z;
                unique = unique[0 := True];
                poly_r' = compress unique poly_r;
                poly_z' = compress unique poly_z
            in Inr (zip poly_r' poly_z'))))"

section \<open>The time-slice object\<close>

text \<open>
  Both \<open>time\<close> methods end in a call \<^verbatim>\<open>EFITEquilibrium(r, z, psi, psi_axis, psi_lcfs,
  axis_coord, xpoints, strike_points, f_profile, q_profile, b_vacuum_radius,
  b_vacuum_magnitude, lcfs_polygon, limiter_polygon, time)\<close>. That class belongs to the
  equilibrium toolkit: its constructor checks what it is given and returns the
  time-slice object or raises. The record \<open>efit_equilibrium\<close> holds the arguments of the
  call. \<open>mast_time\<close> and \<open>mastu_time\<close> below are the two methods up to that call and
  yield its arguments; \<open>MASTEquilibrium_time\<close> and \<open>MASTUEquilibrium_time\<close> are the
  whole methods, with the constructor as a parameter. A \<open>Point2D\<close> is a pair, and a
  boundary polygon, an array of 2 rows and N columns, is the pair of its rows.
\<close>

type_synonym point2d = "real \<times> real"

type_synonym polygon = "real list \<times> real list"

record efit_equilibrium =
  eq_r :: "real list"
  eq_z :: "real list"
  eq_psi :: "real list list"
  eq_psi_axis :: real
  eq_psi_lcfs :: real
  eq_axis_coord :: point2d
  eq_xpoints :: "point2d list"
  eq_strike_points :: "point2d list"
  eq_f_profile :: "real list \<times> real list"
  eq_q_profile :: "real list \<times> real list"
  eq_b_vacuum_radius :: real
  eq_b_vacuum_magnitude :: real
  eq_lcfs_polygon :: polygon
  eq_limiter_polygon :: polygon
  eq_time :: real

definition vertices :: "polygon \<Rightarrow> point2d list" where
  "vertices p = zip (fst p) (snd p)"

text \<open>\<^verbatim>\<open>a[0:k]\<close> for an integer \<open>k\<close>: a negative stop counts from the end.\<close>

definition slice_to :: "'a list \<Rightarrow> int \<Rightarrow> 'a list" where
  "slice_to xs k = (if 0 \<le> k then take (nat k) xs else take (length xs - nat (- k)) xs)"

section \<open>MASTEquilibrium\<close>

text \<open>
  The signals that \<open>__init__\<close> reads from the archive and \<open>time\<close> uses, each as the
  \<open>.data\<close> array of the signal (\<open>mast_psi_times\<close> is \<^verbatim>\<open>psi.dims[0].data\<close>, the two
  \<open>psin\<close> fields are \<^verbatim>\<open>f.dims[1].data\<close> and \<^verbatim>\<open>q.dims[1].data\<close>). The signals
  \<open>efm_psi(r)\<close> and \<open>efm_plasma_curr(C)\<close> are read and never used again; they are left out.
\<close>

record mast_signals =
  mast_psi :: "real list list list"
  mast_psi_times :: "real list"
  mast_r :: "real list"
  mast_z :: "real list"
  mast_f :: "real list list"
  mast_f_psin :: "real list"
  mast_q :: "real list list"
  mast_q_psin :: "real list"
  mast_psi_lcfs :: "real list"
  mast_psi_axis :: "real list"
  mast_b_vacuum_magnitude :: "real list"
  mast_b_vacuum_radius :: "real list"
  mast_axis_coord_r :: "real list"
  mast_axis_coord_z :: "real list"
  mast_xpoint1r :: "real list"
  mast_xpoint1z :: "real list"
  mast_xpoint2r :: "real list"
  mast_xpoint2z :: "real list"
  mast_minor_radius :: "real list"
  mast_lcfs_poly_r :: "real list list"
  mast_lcfs_poly_z :: "real list list"
  mast_nlcfs :: "int list"
  mast_limiter_poly_r :: "real list"
  mast_limiter_poly_z :: "real list"
  mast_nlimiter :: int
  mast_plasma_times :: "real list"

record mast_equilibrium =
  mast_sig :: mast_signals
  mast_time_slices :: "real list"
  mast_xpoints :: "(point2d \<times> point2d) list"
  mast_time_range :: "real \<times> real"

text \<open>The pulse argument is an untyped Python value.\<close>

datatype pyvalue = PyInt int | PyBool bool | PyFloat real | PyStr string

text \<open>\<^verbatim>\<open>pulse >= 40000\<close>, and \<^verbatim>\<open>pulse < 40000\<close>: a Boolean counts as 0 or 1, and a
  string cannot be compared with a number.\<close>

fun ge_40000 :: "pyvalue \<Rightarrow> error + bool" where
  "ge_40000 (PyInt n) = Inr (n \<ge> 40000)"
| "ge_40000 (PyBool b) = Inr False"
| "ge_40000 (PyFloat x) = Inr (x \<ge> 40000)"
| "ge_40000 (PyStr s) =
     Inl (TypeError (Text ('''>=' not supported between instances of 'str' and 'int''
       @ [CHR 0x27])))"

fun lt_40000 :: "pyvalue \<Rightarrow> error + bool" where
  "lt_40000 (PyInt n) = Inr (n < 40000)"
| "lt_40000 (PyBool b) = Inr True"
| "lt_40000 (PyFloat x) = Inr (x < 40000)"
| "lt_40000 (PyStr s) =
     Inl (TypeError (Text ('''<' not supported between instances of 'str' and 'int''
       @ [CHR 0x27])))"

text \<open>
  \<^verbatim>\<open>
  def __init__(self, pulse):
      if pulse >= 40000:
          raise ValueError("MASTEquilibrium on supports pulses before 40000. "
                           "Use MASTUEquilibrium instead for pulses after 40000.")
      self.client = pyuda.Client()
      self.psi = self.client.get("efm_psi(r,z)", pulse)
      self.time_slices = self.psi.dims[0].data
      ...
      self.xpoints = [(Point2D(r1, z1), Point2D(r2, z2))
                      for (r1, z1, r2, z2) in zip(xpoint1r, xpoint1z, xpoint2r, xpoint2z)]
      ...
      self.time_range = self.time_slices.min(), self.time_slices.max()
  \<close>
  The archive client is the parameter \<open>fetch\<close>: all the \<open>client.get\<close> calls of the
  constructor together, which give the signals of the pulse or raise.
\<close>

definition mast_pulse_error :: error where
  "mast_pulse_error = ValueError (Text (''MASTEquilibrium on supports pulses before 40000. ''
      @ ''Use MASTUEquilibrium instead for pulses after 40000.''))"

definition mast_init :: "(pyvalue \<Rightarrow> error + mast_signals) \<Rightarrow> pyvalue \<Rightarrow> error + mast_equilibrium" where
  "mast_init fetch pulse =
     sbind (ge_40000 pulse) (\<lambda>too_late.
       if too_late then Inl mast_pulse_error
       else
         sbind (fetch pulse) (\<lambda>s.
           (let time_slices = mast_psi_times s;
                xpoints = map (\<lambda>(r1, z1, r2, z2). ((r1, z1), (r2, z2)))
                  (zip (mast_xpoint1r s) (zip (mast_xpoint1z s)
                     (zip (mast_xpoint2r s) (mast_xpoint2z s))))
            in sbind (amin time_slices) (\<lambda>lo.
               sbind (amax time_slices) (\<lambda>hi.
                 Inr \<lparr>mast_sig = s, mast_time_slices = time_slices,
                      mast_xpoints = xpoints, mast_time_range = (lo, hi)\<rparr>)))))"

text \<open>
  The first lines of \<open>MASTEquilibrium.time\<close> choose the two indices:
  \<^verbatim>\<open>
  try:
      index = self._find_nearest(self.time_slices, time)
      plasma_index = self._find_nearest(self.plasma_times.data, time)
  except IndexError:
      raise ValueError('Requested time lies outside the range of the data: [{}, {}]s.'
                       .format( *self.time_range))
  \<close>
\<close>

definition mast_indices :: "mast_equilibrium \<Rightarrow> real \<Rightarrow> error + nat \<times> nat" where
  "mast_indices self t =
     (case sbind (find_nearest (mast_time_slices self) t) (\<lambda>index.
           sbind (find_nearest (mast_plasma_times (mast_sig self)) t) (\<lambda>plasma_index.
             Inr (index, plasma_index))) of
        Inl (IndexError m) \<Rightarrow>
          Inl (ValueError (TimeRange (fst (mast_time_range self)) (snd (mast_time_range self))))
      | Inl e \<Rightarrow> Inl e
      | Inr ij \<Rightarrow> Inr ij)"

text \<open>\<^verbatim>\<open>data.squeeze()[0:k]\<close> on a limiter array: squeezing an array of a single
  element leaves no axis to slice.\<close>

definition squeeze_slice_to :: "real list \<Rightarrow> int \<Rightarrow> error + real list" where
  "squeeze_slice_to xs k =
     (if length xs = 1 then Inl (IndexError (Text ''too many indices for array''))
      else Inr (slice_to xs k))"

text \<open>
  The rest of \<open>MASTEquilibrium.time\<close> reads every signal at one of the two indices, in
  the order of the source, and sanitises the two boundary polygons; \<open>lcfs_polygon.T\<close>
  turns the N rows of the sanitiser into the 2 rows of the polygon, and
  \<^verbatim>\<open>np.asarray([psin, magnitude])\<close> is the pair of the two rows. The two \<open>print\<close>
  calls and the attributes that \<open>time\<close> stores on \<open>self\<close> (\<open>f_profile_psin\<close>,
  \<open>lcfs_polygon\<close>, \<open>limiter_polygon\<close>) are never read by this class and are left out.
\<close>

definition mast_time :: "mast_equilibrium \<Rightarrow> real \<Rightarrow> error + efit_equilibrium" where
  "mast_time self t =
     sbind (mast_indices self t) (\<lambda>(index, plasma_index).
     (let s = mast_sig self in
     sbind (getitem (mast_b_vacuum_radius s) index) (\<lambda>b_vacuum_radius.
     sbind (getitem (mast_time_slices self) index) (\<lambda>time.
     sbind (getitem (mast_psi s) index) (\<lambda>psi_zr.
     sbind (getitem (mast_psi_lcfs s) plasma_index) (\<lambda>psi_lcfs.
     sbind (getitem (mast_psi_axis s) plasma_index) (\<lambda>psi_axis.
     sbind (getitem (mast_f s) plasma_index) (\<lambda>f_profile_magnitude.
     sbind (getitem (mast_q s) plasma_index) (\<lambda>q_profile_magnitude.
     sbind (getitem (mast_axis_coord_r s) plasma_index) (\<lambda>axis_r.
     sbind (getitem (mast_axis_coord_z s) plasma_index) (\<lambda>axis_z.
     sbind (getitem (mast_b_vacuum_magnitude s) index) (\<lambda>b_vacuum_magnitude.
     sbind (getitem (mast_lcfs_poly_r s) plasma_index) (\<lambda>lcfs_poly_r.
     sbind (getitem (mast_lcfs_poly_z s) plasma_index) (\<lambda>lcfs_poly_z.
     sbind (getitem (mast_nlcfs s) plasma_index) (\<lambda>lcfs_points.
     sbind (process_efit_lcfs_polygon (slice_to lcfs_poly_r lcfs_points)
              (slice_to lcfs_poly_z lcfs_points)) (\<lambda>lcfs_coords.
     sbind (squeeze_slice_to (mast_limiter_poly_r s) (mast_nlimiter s)) (\<lambda>limiter_poly_r.
     sbind (squeeze_slice_to (mast_limiter_poly_z s) (mast_nlimiter s)) (\<lambda>limiter_poly_z.
     sbind (process_efit_lcfs_polygon limiter_poly_r limiter_poly_z) (\<lambda>limiter_coords.
     sbind (list_getitem (mast_xpoints self) plasma_index) (\<lambda>(xp1, xp2).
     sbind (getitem (mast_minor_radius s) plasma_index) (\<lambda>minor_radius.
       Inr \<lparr>eq_r = mast_r s, eq_z = mast_z s, eq_psi = transpose psi_zr,
            eq_psi_axis = psi_axis, eq_psi_lcfs = psi_lcfs,
            eq_axis_coord = (axis_r, axis_z), eq_xpoints = [xp1, xp2],
            eq_strike_points = [],
            eq_f_profile = (mast_f_psin s, f_profile_magnitude),
            eq_q_profile = (mast_q_psin s, q_profile_magnitude),
            eq_b_vacuum_radius = b_vacuum_radius,
            eq_b_vacuum_magnitude = b_vacuum_magnitude,
            eq_lcfs_polygon = (map fst lcfs_coords, map snd lcfs_coords),
            eq_limiter_polygon = (map fst limiter_coords, map snd limiter_coords),
            eq_time = time\<rparr>)))))))))))))))))))))"

text \<open>\<^verbatim>\<open>return EFITEquilibrium(...)\<close>: the method returns what the constructor returns
  and raises what it raises.\<close>

definition MASTEquilibrium_time ::
    "(efit_equilibrium \<Rightarrow> error + 'slice) \<Rightarrow> mast_equilibrium \<Rightarrow> real \<Rightarrow> error + 'slice" where
  "MASTEquilibrium_time EFITEquilibrium self t = sbind (mast_time self t) EFITEquilibrium"

section \<open>MASTUEquilibrium\<close>

text \<open>
  The MAST-U reader keeps, per time slice, the lists of X points and strike points that
  its constructor cuts out of the archive arrays:
  \<^verbatim>\<open>
  for n, rx, zx, rs, zs in zip(nxp, rxp, zxp, rsp, zsp):
      if np.isnan(n):
          n = 0
      n = int(n)
      self.xpoints.append([Point2D(x, y) for (x, y) in zip(rx[:n], zx[:n])])
      self.strike_points.append([Point2D(x, y) for (x, y) in zip(rs[:2*n], zs[:2*n])])
  \<close>
  The count \<open>n\<close> is the one place where the source tests for NaN: a count is a
  \<open>real option\<close>, \<open>None\<close> for NaN. \<open>int(n)\<close> rounds towards zero.
\<close>

definition py_int :: "real \<Rightarrow> int" where
  "py_int x = (if 0 \<le> x then \<lfloor>x\<rfloor> else \<lceil>x\<rceil>)"

fun xpoint_loop :: "real option list \<Rightarrow> real list list \<Rightarrow> real list list \<Rightarrow>
    real list list \<Rightarrow> real list list \<Rightarrow> (point2d list \<times> point2d list) list" where
  "xpoint_loop (n # nxp) (rx # rxp) (zx # zxp) (rs # rsp) (zs # zsp) =
     (let n = (case n of None \<Rightarrow> 0 | Some c \<Rightarrow> py_int c) in
      (zip (slice_to rx n) (slice_to zx n), zip (slice_to rs (2 * n)) (slice_to zs (2 * n)))
        # xpoint_loop nxp rxp zxp rsp zsp)"
| "xpoint_loop _ _ _ _ _ = []"

text \<open>The signals read after the flux map (\<open>mu_psi\<close>, \<open>mu_time_slices\<close>), again as their
  \<open>.data\<close> arrays; \<open>fluxFunctionProfiles/poloidalFlux\<close>, \<open>plasmaCurrent\<close> and
  \<open>minorRadius\<close> are read and never used, and are left out.\<close>

record mastu_signals =
  mu_r :: "real list"
  mu_z :: "real list"
  mu_f :: "real list list"
  mu_f_psin :: "real list"
  mu_q :: "real list list"
  mu_q_psin :: "real list"
  mu_psi_lcfs :: "real list"
  mu_psi_axis :: "real list"
  mu_b_vacuum_magnitude :: "real list"
  mu_axis_coord_r :: "real list"
  mu_axis_coord_z :: "real list"
  mu_nxp :: "real option list"
  mu_rxp :: "real list list"
  mu_zxp :: "real list list"
  mu_rsp :: "real list list"
  mu_zsp :: "real list list"
  mu_lcfs_poly_r :: "real list list"
  mu_lcfs_poly_z :: "real list list"
  mu_limiter_poly_r :: "real list"
  mu_limiter_poly_z :: "real list"

record mastu_equilibrium =
  mu_psi :: "real list list list"
  mu_time_slices :: "real list"
  mu_time_range :: "real \<times> real"
  mu_sig :: mastu_signals
  mu_xpoints :: "point2d list list"
  mu_strike_points :: "point2d list list"

text \<open>
  \<^verbatim>\<open>
  def __init__(self, pulse):
      if isinstance(pulse, int) and pulse < 40000:
          raise ValueError("MAST-U Equilibria only supported for pulse 40000 onwards.")
      self.client = pyuda.Client()
      self.psi = self.client.get("/epm/output/profiles2D/poloidalFlux", pulse)
      self.time_slices = self.psi.dims[0].data
      self.time_range = self.time_slices.min(), self.time_slices.max()
      ...
  \<close>
  \<open>fetch_psi\<close> is the first \<open>client.get\<close>, giving the flux map and its time base, and
  \<open>fetch_rest\<close> stands for all the later ones. \<open>mastu_load\<close> is the constructor below its
  guard. In Python a Boolean is an instance of \<open>int\<close>.
\<close>

fun isinstance_int :: "pyvalue \<Rightarrow> bool" where
  "isinstance_int (PyInt n) = True"
| "isinstance_int (PyBool b) = True"
| "isinstance_int _ = False"

definition mastu_pulse_error :: error where
  "mastu_pulse_error =
     ValueError (Text ''MAST-U Equilibria only supported for pulse 40000 onwards.'')"

definition mastu_load ::
    "(pyvalue \<Rightarrow> error + real list list list \<times> real list) \<Rightarrow>
     (pyvalue \<Rightarrow> error + mastu_signals) \<Rightarrow> pyvalue \<Rightarrow> error + mastu_equilibrium" where
  "mastu_load fetch_psi fetch_rest pulse =
     sbind (fetch_psi pulse) (\<lambda>(psi, time_slices).
     sbind (amin time_slices) (\<lambda>lo.
     sbind (amax time_slices) (\<lambda>hi.
     sbind (fetch_rest pulse) (\<lambda>s.
       (let xs = xpoint_loop (mu_nxp s) (mu_rxp s) (mu_zxp s) (mu_rsp s) (mu_zsp s) in
        Inr \<lparr>mu_psi = psi, mu_time_slices = time_slices, mu_time_range = (lo, hi),
             mu_sig = s, mu_xpoints = map fst xs, mu_strike_points = map snd xs\<rparr>)))))"

definition mastu_init ::
    "(pyvalue \<Rightarrow> error + real list list list \<times> real list) \<Rightarrow>
     (pyvalue \<Rightarrow> error + mastu_signals) \<Rightarrow> pyvalue \<Rightarrow> error + mastu_equilibrium" where
  "mastu_init fetch_psi fetch_rest pulse =
     (if isinstance_int pulse then
        sbind (lt_40000 pulse) (\<lambda>too_early.
          if too_early then Inl mastu_pulse_error
          else mastu_load fetch_psi fetch_rest pulse)
      else mastu_load fetch_psi fetch_rest pulse)"

text \<open>\<^verbatim>\<open>np.argmin(x)\<close>: the first index of the least entry.\<close>

fun argmin_from :: "real list \<Rightarrow> nat \<Rightarrow> nat \<Rightarrow> real \<Rightarrow> nat" where
  "argmin_from [] i best least = best"
| "argmin_from (x # xs) i best least =
     (if x < least then argmin_from xs (i + 1) i x else argmin_from xs (i + 1) best least)"

fun argmin :: "real list \<Rightarrow> error + nat" where
  "argmin [] = Inl (ValueError (Text ''attempt to get argmin of an empty sequence''))"
| "argmin (x # xs) = Inr (argmin_from xs 1 0 x)"

text \<open>
  The first lines of \<open>MASTUEquilibrium.time\<close> choose the index:
  \<^verbatim>\<open>
  tmin = self.time_slices.min()
  tmax = self.time_slices.max()
  if not tmin <= time <= tmax:
      raise ValueError('Requested time lies outside the range of the data: [{}, {}]s.'
                       .format(tmin, tmax))
  index = np.argmin(abs(self.time_slices - time))
  \<close>
\<close>

definition mastu_index :: "mastu_equilibrium \<Rightarrow> real \<Rightarrow> error + nat" where
  "mastu_index self t =
     sbind (amin (mu_time_slices self)) (\<lambda>tmin.
     sbind (amax (mu_time_slices self)) (\<lambda>tmax.
       if \<not> (tmin \<le> t \<and> t \<le> tmax) then Inl (ValueError (TimeRange tmin tmax))
       else argmin (map (\<lambda>x. \<bar>x - t\<bar>) (mu_time_slices self))))"

text \<open>
  \<^verbatim>\<open>
  lcfs_polygon = np.stack((lcfs_poly_r, lcfs_poly_z), axis=0)
  if np.all(lcfs_polygon[:, 0] == lcfs_polygon[:, -1]):
      # First and last points are the same: need an open polygon for Cherab.
      lcfs_polygon = lcfs_polygon[:, :-1]
  \<close>
  The same four lines treat the limiter. \<open>np.stack\<close> wants two rows of one length, and
  column 0 of an array without columns does not exist.
\<close>

definition open_polygon :: "real list \<Rightarrow> real list \<Rightarrow> error + polygon" where
  "open_polygon poly_r poly_z =
     (if length poly_r \<noteq> length poly_z then
        Inl (ValueError (Text ''all input arrays must have the same shape''))
      else if poly_r = [] then
        Inl (IndexError (Text ''index 0 is out of bounds for axis 1 with size 0''))
      else if poly_r ! 0 = last poly_r \<and> poly_z ! 0 = last poly_z then
        Inr (butlast poly_r, butlast poly_z)
      else Inr (poly_r, poly_z))"

definition mastu_time :: "mastu_equilibrium \<Rightarrow> real \<Rightarrow> error + efit_equilibrium" where
  "mastu_time self t =
     sbind (mastu_index self t) (\<lambda>index.
     (let s = mu_sig self in
     sbind (getitem (mu_time_slices self) index) (\<lambda>time.
     sbind (getitem (mu_psi self) index) (\<lambda>psi.
     sbind (getitem (mu_psi_lcfs s) index) (\<lambda>psi_lcfs.
     sbind (getitem (mu_psi_axis s) index) (\<lambda>psi_axis.
     sbind (getitem (mu_f s) index) (\<lambda>f_profile_magnitude.
     sbind (getitem (mu_q s) index) (\<lambda>q_profile_magnitude.
     sbind (getitem (mu_axis_coord_r s) index) (\<lambda>axis_r.
     sbind (getitem (mu_axis_coord_z s) index) (\<lambda>axis_z.
     sbind (getitem (mu_b_vacuum_magnitude s) index) (\<lambda>b_vacuum_magnitude.
     sbind (getitem (mu_axis_coord_r s) index) (\<lambda>b_vacuum_radius.
     sbind (getitem (mu_lcfs_poly_r s) index) (\<lambda>lcfs_poly_r.
     sbind (getitem (mu_lcfs_poly_z s) index) (\<lambda>lcfs_poly_z.
     sbind (open_polygon lcfs_poly_r lcfs_poly_z) (\<lambda>lcfs_polygon.
     sbind (open_polygon (mu_limiter_poly_r s) (mu_limiter_poly_z s)) (\<lambda>limiter_polygon.
     sbind (list_getitem (mu_xpoints self) index) (\<lambda>xpoints.
     sbind (list_getitem (mu_strike_points self) index) (\<lambda>strike_points.
       Inr \<lparr>eq_r = mu_r s, eq_z = mu_z s, eq_psi = psi,
            eq_psi_axis = psi_axis, eq_psi_lcfs = psi_lcfs,
            eq_axis_coord = (axis_r, axis_z), eq_xpoints = xpoints,
            eq_strike_points = strike_points,
            eq_f_profile = (mu_f_psin s, f_profile_magnitude),
            eq_q_profile = (mu_q_psin s, q_profile_magnitude),
            eq_b_vacuum_radius = b_vacuum_radius,
            eq_b_vacuum_magnitude = b_vacuum_magnitude,
            eq_lcfs_polygon = lcfs_polygon,
            eq_limiter_polygon = limiter_polygon,
            eq_time = time\<rparr>))))))))))))))))))"

definition MASTUEquilibrium_time ::
    "(efit_equilibrium \<Rightarrow> error + 'slice) \<Rightarrow> mastu_equilibrium \<Rightarrow> real \<Rightarrow> error + 'slice" where
  "MASTUEquilibrium_time EFITEquilibrium self t = sbind (mastu_time self t) EFITEquilibrium"

section \<open>The bolometer camera loader\<close>

text \<open>
  An identifier is a string of characters with code points below 256, one \<open>char\<close>
  each. \<open>str.split('-')\<close> cuts at every hyphen. \<open>str.strip()\<close> removes the white
  space at both ends: below 256 that is the space, the controls 0x09 to 0x0D and 0x1C
  to 0x1F, the next-line control 0x85 and the no-break space 0xA0. \<open>str.lower()\<close> maps
  the capital letters to small ones: below 256 those are A to Z and the accented
  capitals 0xC0 to 0xDE without the multiplication sign 0xD7, each 0x20 below its small
  letter.
\<close>

fun split_on :: "char \<Rightarrow> string \<Rightarrow> string list" where
  "split_on c [] = [[]]"
| "split_on c (x # xs) =
     (if x = c then [] # split_on c xs
      else (case split_on c xs of [] \<Rightarrow> [[x]] | w # ws \<Rightarrow> (x # w) # ws))"

definition isspace :: "char \<Rightarrow> bool" where
  "isspace c = (c \<in> set [CHR '' '', CHR 0x09, CHR 0x0A, CHR 0x0B, CHR 0x0C, CHR 0x0D,
                          CHR 0x1C, CHR 0x1D, CHR 0x1E, CHR 0x1F, CHR 0x85, CHR 0xA0])"

definition strip :: "string \<Rightarrow> string" where
  "strip s = rev (dropWhile isspace (rev (dropWhile isspace s)))"

definition capitals :: string where
  "capitals = ''ABCDEFGHIJKLMNOPQRSTUVWXYZ'' @
     [CHR 0xC0, CHR 0xC1, CHR 0xC2, CHR 0xC3, CHR 0xC4, CHR 0xC5, CHR 0xC6, CHR 0xC7,
      CHR 0xC8, CHR 0xC9, CHR 0xCA, CHR 0xCB, CHR 0xCC, CHR 0xCD, CHR 0xCE, CHR 0xCF,
      CHR 0xD0, CHR 0xD1, CHR 0xD2, CHR 0xD3, CHR 0xD4, CHR 0xD5, CHR 0xD6, CHR 0xD8,
      CHR 0xD9, CHR 0xDA, CHR 0xDB, CHR 0xDC, CHR 0xDD, CHR 0xDE]"

definition smalls :: string where
  "smalls = ''abcdefghijklmnopqrstuvwxyz'' @
     [CHR 0xE0, CHR 0xE1, CHR 0xE2, CHR 0xE3, CHR 0xE4, CHR 0xE5, CHR 0xE6, CHR 0xE7,
      CHR 0xE8, CHR 0xE9, CHR 0xEA, CHR 0xEB, CHR 0xEC, CHR 0xED, CHR 0xEE, CHR 0xEF,
      CHR 0xF0, CHR 0xF1, CHR 0xF2, CHR 0xF3, CHR 0xF4, CHR 0xF5, CHR 0xF6, CHR 0xF8,
      CHR 0xF9, CHR 0xFA, CHR 0xFB, CHR 0xFC, CHR 0xFD, CHR 0xFE]"

definition lower_char :: "char \<Rightarrow> char" where
  "lower_char c = (case map_of (zip capitals smalls) c of None \<Rightarrow> c | Some d \<Rightarrow> d)"

definition lower :: "string \<Rightarrow> string" where
  "lower s = map lower_char s"

text \<open>
  \<^verbatim>\<open>
  def load_default_bolometer_config(bolometer_id, parent=None, shot=50000, override_material=None):
      try:
          chamber, camera_name = [elem.strip() for elem in bolometer_id.split('-')]
      except KeyError:
          raise ValueError("Bolometer camera ID '{}' not recognised.".format(bolometer_id))
      if chamber.lower() not in ('sxdl', 'core'):
          raise ValueError('Chamber must be "SXDL" or "CORE"')
      client = pyuda.Client()
      try:
          bolometers = client.geometry('/bolo/{}'.format(chamber.lower()), shot,
                                       cartesian_coords=True, no_cal=True).data
      except AttributeError:
          raise pyuda.UDAException("Couldn't retrieve bolometer geometry data from UDA.")
      if chamber.lower() == 'sxdl':
          if camera_name.lower() == 'outer':
              mesh_geometry_data = SXD_BOLOMETERS[0]
          elif camera_name.lower() == 'upper':
              mesh_geometry_data = SXD_BOLOMETERS[1]
          else:
              raise ValueError('For SXDL, camera name must be "Outer" or "Upper"')
      elif chamber.lower() == 'core':
          if camera_name.lower() == 'poloidal':
              mesh_geometry_data = CORE_BOLOMETERS[0]
          elif camera_name.lower() == 'tangential':
              mesh_geometry_data = CORE_BOLOMETERS[1]
          else:
              raise ValueError('For Core, camera name must be "Poloidal" or "Tangential"')
      ...
  \<close>
  Unpacking a list that has not exactly two elements raises a ValueError; no KeyError can
  arise there. The archive client and its query are the parameter \<open>geometry\<close>, the two
  mesh tables of
  \<open>cherab.mastu.machine\<close> are the parameters \<open>sxd_bolometers\<close> and \<open>core_bolometers\<close>,
  and \<open>assemble\<close> stands for the rest of the body, which builds the camera, its slits
  and its foils with the classes of the ray-tracing toolkit.
\<close>

definition unpack_error :: "nat \<Rightarrow> error" where
  "unpack_error got =
     ValueError (Text (if got < 2 then ''not enough values to unpack (expected 2, got 1)''
                       else ''too many values to unpack (expected 2)''))"

definition chamber_error :: error where
  "chamber_error = ValueError (Text ''Chamber must be \"SXDL\" or \"CORE\"'')"

definition sxdl_camera_error :: error where
  "sxdl_camera_error =
     ValueError (Text ''For SXDL, camera name must be \"Outer\" or \"Upper\"'')"

definition core_camera_error :: error where
  "core_camera_error =
     ValueError (Text ''For Core, camera name must be \"Poloidal\" or \"Tangential\"'')"

definition uda_error :: error where
  "uda_error = UDAException (Text ''Couldn't retrieve bolometer geometry data from UDA.'')"

definition load_default_bolometer_config ::
    "(string \<Rightarrow> 'shot \<Rightarrow> error + 'geom) \<Rightarrow> 'mesh list \<Rightarrow> 'mesh list \<Rightarrow>
     ('mesh \<Rightarrow> string \<Rightarrow> string \<Rightarrow> 'geom \<Rightarrow> error + 'camera) \<Rightarrow>
     string \<Rightarrow> 'shot \<Rightarrow> error + 'camera" where
  "load_default_bolometer_config geometry sxd_bolometers core_bolometers assemble
       bolometer_id shot =
     (case map strip (split_on CHR ''-'' bolometer_id) of
        [chamber, camera_name] \<Rightarrow>
          if lower chamber \<notin> set [''sxdl'', ''core''] then Inl chamber_error
          else
            sbind (case geometry (''/bolo/'' @ lower chamber) shot of
                     Inl (AttributeError m) \<Rightarrow> Inl uda_error
                   | Inl e \<Rightarrow> Inl e
                   | Inr g \<Rightarrow> Inr g) (\<lambda>bolometers.
            sbind (if lower chamber = ''sxdl'' then
                     (if lower camera_name = ''outer'' then list_getitem sxd_bolometers 0
                      else if lower camera_name = ''upper'' then list_getitem sxd_bolometers 1
                      else Inl sxdl_camera_error)
                   else
                     (if lower camera_name = ''poloidal'' then list_getitem core_bolometers 0
                      else if lower camera_name = ''tangential'' then list_getitem core_bolometers 1
                      else Inl core_camera_error)) (\<lambda>mesh_geometry_data.
              assemble mesh_geometry_data chamber camera_name bolometers))
      | parts \<Rightarrow> Inl (unpack_error (length parts)))"

section \<open>The batch driver\<close>

text \<open>
  \<^verbatim>\<open>
  def main():
      camera = sys.argv[1]
      shift_p5 = False
      camera_transform = None
      if camera in ("Outer", "Upper"):
          MESH_PARTS = MASTU_FULL_MESH
          grid = "sxdl"
      elif camera in ("Poloidal", "Tangential"):
          MESH_PARTS = MASTU_FULL_MESH
          shift_p5 = True
          grid = "core"
      elif camera in ("PoloidalHighRes", "TangentialHighRes"):
          MESH_PARTS = MASTU_FULL_MESH
          shift_p5 = True
          grid = "core_high_res"
          camera = camera[:-7]
      elif camera == "Poloidal-MAST":
          MESH_PARTS = MAST_FULL_MESH
          camera_transform = translate(0, 0.1, 0)
          grid = "core"
      else:
          raise ValueError("The following cameras are supported: ...")
      calculate_and_save_sensitivities(grid, camera, MESH_PARTS, shift_p5, camera_transform)
  \<close>
  The ray-tracing run is the parameter \<open>calculate\<close>; the transform \<open>translate(0, 0.1, 0)\<close>
  is its translation vector.
\<close>

datatype mesh_parts = MASTU_FULL_MESH | MAST_FULL_MESH

definition camera_error :: error where
  "camera_error = ValueError (Text (''The following cameras are supported: ''
      @ '''Outer', 'Upper', 'Poloidal', 'Tangential', ''
      @ '''PoloidalHighRes', 'TangentialHighRes', ''
      @ '''Poloidal-MAST'' @ [CHR 0x27]))"

definition main ::
    "string list \<Rightarrow>
     (string \<Rightarrow> string \<Rightarrow> mesh_parts \<Rightarrow> bool \<Rightarrow> (real \<times> real \<times> real) option \<Rightarrow> error + 'out) \<Rightarrow>
     error + 'out" where
  "main argv calculate =
     (if length argv \<le> 1 then Inl list_index_error
      else
        (let camera = argv ! 1 in
         if camera \<in> set [''Outer'', ''Upper''] then
           calculate ''sxdl'' camera MASTU_FULL_MESH False None
         else if camera \<in> set [''Poloidal'', ''Tangential''] then
           calculate ''core'' camera MASTU_FULL_MESH True None
         else if camera \<in> set [''PoloidalHighRes'', ''TangentialHighRes''] then
           calculate ''core_high_res'' (take (length camera - 7) camera) MASTU_FULL_MESH True None
         else if camera = ''Poloidal-MAST'' then
           calculate ''core'' camera MAST_FULL_MESH False (Some (0, 1 / 10, 0))
         else Inl camera_error))"

section \<open>The nearest-index rule of the specification\<close>

text \<open>
  The specification words the rule as: binary-search for the insertion point; compare
  the squared distance to the sample at that index with the one at the next index;
  return whichever is closer, ties to the later index. \<open>insertion_point\<close> is the
  position before which every sample is below the query, and \<open>nearest_rule\<close> is the
  rule on top of it. The rule names an index for every query: where the array has no
  sample at the next index, the sample at the insertion point has no rival and its
  index is the result.
\<close>

definition insertion_point :: "real list \<Rightarrow> real \<Rightarrow> nat" where
  "insertion_point a v = length (takeWhile (\<lambda>x. x < v) a)"

definition nearest_rule :: "real list \<Rightarrow> real \<Rightarrow> nat" where
  "nearest_rule a v =
     (let i = insertion_point a v in
      if i + 1 < length a then
        (if (v - a ! i)\<^sup>2 < (v - a ! (i + 1))\<^sup>2 then i else i + 1)
      else i)"

section \<open>Two archived pulses\<close>

text \<open>
  A MAST pulse and a MAST-U pulse of four time slices at 0, 1, 2 and 3 seconds, both
  with the closed unit square as boundary. The MAST boundary rows carry two padding
  entries behind their five points. A second MAST-U pulse differs from the first in
  its boundary alone, which ends in two copies of its first point.
\<close>

definition ex_mast_signals :: mast_signals where
  "ex_mast_signals =
     \<lparr>mast_psi = replicate 4 [[1, 2], [3, 4]],
      mast_psi_times = [0, 1, 2, 3],
      mast_r = [1, 2],
      mast_z = [0, 1],
      mast_f = replicate 4 [5, 6],
      mast_f_psin = [0, 1],
      mast_q = replicate 4 [7, 8],
      mast_q_psin = [0, 1],
      mast_psi_lcfs = replicate 4 1,
      mast_psi_axis = replicate 4 2,
      mast_b_vacuum_magnitude = replicate 4 3,
      mast_b_vacuum_radius = replicate 4 4,
      mast_axis_coord_r = replicate 4 1,
      mast_axis_coord_z = replicate 4 0,
      mast_xpoint1r = replicate 4 1,
      mast_xpoint1z = replicate 4 (- 1),
      mast_xpoint2r = replicate 4 1,
      mast_xpoint2z = replicate 4 1,
      mast_minor_radius = replicate 4 1,
      mast_lcfs_poly_r = replicate 4 [0, 1, 1, 0, 0, 9, 9],
      mast_lcfs_poly_z = replicate 4 [0, 0, 1, 1, 0, 9, 9],
      mast_nlcfs = replicate 4 5,
      mast_limiter_poly_r = [0, 2, 2, 0, 0],
      mast_limiter_poly_z = [0, 0, 2, 2, 0],
      mast_nlimiter = 5,
      mast_plasma_times = [0, 1, 2, 3]\<rparr>"

definition ex_mast :: mast_equilibrium where
  "ex_mast =
     \<lparr>mast_sig = ex_mast_signals,
      mast_time_slices = [0, 1, 2, 3],
      mast_xpoints = replicate 4 ((1, - 1), (1, 1)),
      mast_time_range = (0, 3)\<rparr>"

definition ex_mastu_signals :: mastu_signals where
  "ex_mastu_signals =
     \<lparr>mu_r = [1, 2],
      mu_z = [0, 1],
      mu_f = replicate 4 [5, 6],
      mu_f_psin = [0, 1],
      mu_q = replicate 4 [7, 8],
      mu_q_psin = [0, 1],
      mu_psi_lcfs = replicate 4 1,
      mu_psi_axis = replicate 4 2,
      mu_b_vacuum_magnitude = replicate 4 3,
      mu_axis_coord_r = replicate 4 1,
      mu_axis_coord_z = replicate 4 0,
      mu_nxp = replicate 4 (Some 1),
      mu_rxp = replicate 4 [1, 1],
      mu_zxp = replicate 4 [- 1, 1],
      mu_rsp = replicate 4 [1, 2, 3, 4],
      mu_zsp = replicate 4 [- 2, - 2, 2, 2],
      mu_lcfs_poly_r = replicate 4 [0, 1, 1, 0, 0],
      mu_lcfs_poly_z = replicate 4 [0, 0, 1, 1, 0],
      mu_limiter_poly_r = [0, 2, 2, 0, 0],
      mu_limiter_poly_z = [0, 0, 2, 2, 0]\<rparr>"

definition ex_mastu :: mastu_equilibrium where
  "ex_mastu =
     \<lparr>mu_psi = replicate 4 [[1, 2], [3, 4]],
      mu_time_slices = [0, 1, 2, 3],
      mu_time_range = (0, 3),
      mu_sig = ex_mastu_signals,
      mu_xpoints = replicate 4 [(1, - 1)],
      mu_strike_points = replicate 4 [(1, - 2), (2, - 2)]\<rparr>"

definition ex_twice_closed_signals :: mastu_signals where
  "ex_twice_closed_signals =
     ex_mastu_signals\<lparr>mu_lcfs_poly_r := replicate 4 [0, 1, 1, 0, 0],
                       mu_lcfs_poly_z := replicate 4 [0, 0, 1, 0, 0]\<rparr>"

definition ex_twice_closed :: mastu_equilibrium where
  "ex_twice_closed = ex_mastu\<lparr>mu_sig := ex_twice_closed_signals\<rparr>"

text \<open>The archives of the pulses, a bolometer archive that cannot be reached, one whose
  answer lacks its \<open>data\<close> attribute and one that answers, and stand-ins for the camera
  assembly and the ray-tracing run.\<close>

definition ex_twice_closed_archive :: "pyvalue \<Rightarrow> error + mastu_signals" where
  "ex_twice_closed_archive pulse = Inr ex_twice_closed_signals"

definition geometry_broken :: "string \<Rightarrow> int \<Rightarrow> error + unit" where
  "geometry_broken path shot = Inl (AttributeError (Text ''data''))"

definition is_AttributeError :: "error \<Rightarrow> bool" where
  "is_AttributeError e = (case e of AttributeError m \<Rightarrow> True | _ \<Rightarrow> False)"

definition ex_mast_archive :: "pyvalue \<Rightarrow> error + mast_signals" where
  "ex_mast_archive pulse = Inr ex_mast_signals"

definition ex_mastu_flux :: "pyvalue \<Rightarrow> error + real list list list \<times> real list" where
  "ex_mastu_flux pulse = Inr (replicate 4 [[1, 2], [3, 4]], [0, 1, 2, 3])"

definition ex_mastu_archive :: "pyvalue \<Rightarrow> error + mastu_signals" where
  "ex_mastu_archive pulse = Inr ex_mastu_signals"

definition geometry_down :: "string \<Rightarrow> int \<Rightarrow> error + unit" where
  "geometry_down path shot = Inl (UDAException (Text ''no server''))"

definition geometry_up :: "string \<Rightarrow> int \<Rightarrow> error + unit" where
  "geometry_up path shot = Inr ()"

definition assemble_any :: "unit \<Rightarrow> string \<Rightarrow> string \<Rightarrow> unit \<Rightarrow> error + unit" where
  "assemble_any mesh chamber camera_name bolometers = Inr ()"

definition calculate_any ::
    "string \<Rightarrow> string \<Rightarrow> mesh_parts \<Rightarrow> bool \<Rightarrow> (real \<times> real \<times> real) option \<Rightarrow> error + unit" where
  "calculate_any grid camera parts shift_p5 camera_transform = Inr ()"

definition raises_ValueError :: "error + 'a \<Rightarrow> bool" where
  "raises_ValueError x = (case x of Inl (ValueError m) \<Rightarrow> True | _ \<Rightarrow> False)"

section \<open>Facts about the array primitives\<close>

lemma amin_Min: "a \<noteq> [] \<Longrightarrow> amin a = Inr (Min (set a))"
proof (cases a)
  case (Cons x xs)
  then show ?thesis using Min.set_eq_fold [of x xs] by simp
qed simp

lemma amax_Max: "a \<noteq> [] \<Longrightarrow> amax a = Inr (Max (set a))"
proof (cases a)
  case (Cons x xs)
  then show ?thesis using Max.set_eq_fold [of x xs] by simp
qed simp

lemma bisect_left_window:
  assumes "sorted a" "lo \<le> hi" "hi \<le> length a"
    and "\<forall>i<lo. a ! i < v"
    and "\<forall>i. hi \<le> i \<and> i < length a \<longrightarrow> v \<le> a ! i"
  shows "lo \<le> bisect_left a v lo hi \<and> bisect_left a v lo hi \<le> hi
       \<and> (\<forall>i<bisect_left a v lo hi. a ! i < v)
       \<and> (\<forall>i. bisect_left a v lo hi \<le> i \<and> i < length a \<longrightarrow> v \<le> a ! i)"
  using assms
proof (induction a v lo hi rule: bisect_left.induct)
  case (1 a v lo hi)
  show ?case
  proof (cases "lo < hi")
    case False
    with "1.prems" have "lo = hi" by simp
    moreover have "bisect_left a v lo hi = lo"
      using False by (simp add: bisect_left.simps [of a v lo hi])
    ultimately show ?thesis using "1.prems" by simp
  next
    case True
    define mid where "mid = lo + (hi - lo) div 2"
    have mid: "lo \<le> mid" "mid < hi" using True by (simp_all add: mid_def) 
    show ?thesis
    proof (cases "a ! mid < v")
      case less: True
      have below: "\<forall>i<mid + 1. a ! i < v"
      proof (intro allI impI)
        fix i assume "i < mid + 1"
        then have "a ! i \<le> a ! mid"
          using \<open>sorted a\<close> mid "1.prems"(3) by (simp add: sorted_nth_mono)
        with less show "a ! i < v" by simp
      qed
      have eq: "bisect_left a v lo hi = bisect_left a v (mid + 1) hi"
        using True less by (simp add: bisect_left.simps [of a v lo hi] mid_def Let_def)
      have "mid + 1 \<le> bisect_left a v (mid + 1) hi \<and> bisect_left a v (mid + 1) hi \<le> hi
       \<and> (\<forall>i<bisect_left a v (mid + 1) hi. a ! i < v)
       \<and> (\<forall>i. bisect_left a v (mid + 1) hi \<le> i \<and> i < length a \<longrightarrow> v \<le> a ! i)"
        using "1.IH"(1) [OF True mid_def less \<open>sorted a\<close> _ "1.prems"(3) below "1.prems"(5)] mid
        by simp
      with eq mid show ?thesis by simp
    next
      case geq: False
      have above: "\<forall>i. mid \<le> i \<and> i < length a \<longrightarrow> v \<le> a ! i"
      proof (intro allI impI)
        fix i assume "mid \<le> i \<and> i < length a"
        then have "a ! mid \<le> a ! i"
          using \<open>sorted a\<close> by (simp add: sorted_nth_mono)
        with geq show "v \<le> a ! i" by simp
      qed
      have eq: "bisect_left a v lo hi = bisect_left a v lo mid"
        using True geq by (simp add: bisect_left.simps [of a v lo hi] mid_def Let_def)
      have "lo \<le> bisect_left a v lo mid \<and> bisect_left a v lo mid \<le> mid
       \<and> (\<forall>i<bisect_left a v lo mid. a ! i < v)
       \<and> (\<forall>i. bisect_left a v lo mid \<le> i \<and> i < length a \<longrightarrow> v \<le> a ! i)"
        using "1.IH"(2) [OF True mid_def geq \<open>sorted a\<close> mid(1) _ "1.prems"(4) above] mid "1.prems"(3)
        by simp
      with eq mid show ?thesis by simp
    qed
  qed
qed

lemma searchsorted_insertion_point:
  assumes "sorted a"
  shows "searchsorted a v = insertion_point a v"
proof -
  define i where "i = searchsorted a v"
  have w: "i \<le> length a \<and> (\<forall>j<i. a ! j < v) \<and> (\<forall>j. i \<le> j \<and> j < length a \<longrightarrow> v \<le> a ! j)"
    using bisect_left_window [OF assms, of 0 "length a" v]
    by (simp add: i_def searchsorted_def)
  have "takeWhile (\<lambda>x. x < v) a = take i a"
  proof (rule takeWhile_eq_take_P_nth)
    fix j assume "j < i" "j < length a"
    then show "a ! j < v" using w by simp
  next
    assume "i < length a"
    then have "v \<le> a ! i" using w by simp
    then show "\<not> a ! i < v" by simp
  qed
  then show ?thesis using w by (simp add: insertion_point_def i_def)
qed

lemma searchsorted_in_range:
  assumes "sorted a" "a \<noteq> []" "v \<le> Max (set a)"
  shows "searchsorted a v < length a"
    and "v \<le> a ! searchsorted a v"
    and "\<forall>j<searchsorted a v. a ! j < v"
proof -
  define i where "i = searchsorted a v"
  have w: "i \<le> length a \<and> (\<forall>j<i. a ! j < v) \<and> (\<forall>j. i \<le> j \<and> j < length a \<longrightarrow> v \<le> a ! j)"
    using bisect_left_window [OF assms(1), of 0 "length a" v]
    by (simp add: i_def searchsorted_def)
  have "Max (set a) \<in> set a" using assms(2) by (intro Max_in) simp_all
  then obtain k where k: "k < length a" "a ! k = Max (set a)" by (auto simp: in_set_conv_nth)
  have "\<not> k < i"
  proof
    assume "k < i"
    with w have "a ! k < v" by simp
    with k assms(3) show False by simp
  qed
  with k have "i < length a" by simp
  then show "searchsorted a v < length a" "v \<le> a ! searchsorted a v"
    "\<forall>j<searchsorted a v. a ! j < v" using w by (simp_all add: i_def)
qed

section \<open>Facts about the sanitiser\<close>

lemma zip_compress:
  "length bs = length xs \<Longrightarrow> length xs = length ys \<Longrightarrow>
   zip (compress bs xs) (compress bs ys) = compress bs (zip xs ys)"
  by (induction bs xs ys rule: list_induct3) simp_all

lemma compress_map: "compress (map P xs) xs = filter P xs"
  by (induction xs) simp_all

lemma process_efit_lcfs_polygon_filter:
  assumes "length poly_r = length poly_z" and "2 \<le> length poly_r"
  shows "process_efit_lcfs_polygon poly_r poly_z =
         Inr ((poly_r ! 0, poly_z ! 0)
              # filter (\<lambda>p. p \<noteq> (poly_r ! 0, poly_z ! 0)) (tl (zip poly_r poly_z)))"
proof -
  obtain r0 rs where r: "poly_r = r0 # rs" using assms(2) by (cases poly_r) auto
  obtain z0 zs where z: "poly_z = z0 # zs" using assms by (cases poly_z) auto
  define P where "P = (\<lambda>p :: real \<times> real. fst p \<noteq> r0 \<or> snd p \<noteq> z0)"
  define mask where "mask = True # map P (zip rs zs)"
  have len: "length rs = length zs" using assms(1) r z by simp
  have m: "(map2 (\<lambda>a b. a \<noteq> poly_r ! 0 \<or> b \<noteq> poly_z ! 0) poly_r poly_z)[0 := True] = mask"
    by (simp add: r z mask_def P_def case_prod_beta)
  have "zip (compress mask poly_r) (compress mask poly_z) = compress mask (zip poly_r poly_z)"
    using len by (intro zip_compress) (simp_all add: mask_def r z)
  also have "\<dots> = (r0, z0) # filter P (zip rs zs)"
    by (simp add: mask_def r z compress_map)
  also have "filter P (zip rs zs) = filter (\<lambda>p. p \<noteq> (r0, z0)) (zip rs zs)"
    by (rule filter_cong) (auto simp: P_def)
  finally have "zip (compress mask poly_r) (compress mask poly_z)
      = (r0, z0) # filter (\<lambda>p. p \<noteq> (r0, z0)) (zip rs zs)" .
  moreover have "process_efit_lcfs_polygon poly_r poly_z
      = Inr (zip (compress mask poly_r) (compress mask poly_z))"
    using assms unfolding process_efit_lcfs_polygon_def Let_def m by simp
  ultimately show ?thesis by (simp add: r z)
qed

section \<open>The two pulses, evaluated\<close>

lemma ex_mast_init: "mast_init ex_mast_archive (PyInt 30000) = Inr ex_mast"
  by (simp add: mast_init_def sbind_def ex_mast_archive_def ex_mast_signals_def ex_mast_def
      Let_def numeral_eq_Suc)

lemma ex_mastu_init:
  "mastu_init ex_mastu_flux ex_mastu_archive (PyInt 45000) = Inr ex_mastu"
  by (simp add: mastu_init_def mastu_load_def sbind_def ex_mastu_flux_def ex_mastu_archive_def
      ex_mastu_signals_def ex_mastu_def Let_def numeral_eq_Suc py_int_def slice_to_def)

lemma ex_mast_indices_3: "mast_indices ex_mast 3 = Inl (ValueError (TimeRange 0 3))"
  by (simp add: mast_indices_def ex_mast_def ex_mast_signals_def sbind_def getitem_def find_nearest_def searchsorted_def
      bisect_left.simps Let_def out_of_bounds_def)

lemma ex_mast_indices_half: "mast_indices ex_mast (1 / 2) = Inr (1, 1)"
  by (simp add: mast_indices_def ex_mast_def ex_mast_signals_def sbind_def getitem_def find_nearest_def
      searchsorted_def bisect_left.simps Let_def power2_eq_square)

lemma ex_mast_time_half:
  "mast_time ex_mast (1 / 2) =
     Inr \<lparr>eq_r = [1, 2], eq_z = [0, 1], eq_psi = [[1, 3], [2, 4]],
          eq_psi_axis = 2, eq_psi_lcfs = 1, eq_axis_coord = (1, 0),
          eq_xpoints = [(1, - 1), (1, 1)], eq_strike_points = [],
          eq_f_profile = ([0, 1], [5, 6]), eq_q_profile = ([0, 1], [7, 8]),
          eq_b_vacuum_radius = 4, eq_b_vacuum_magnitude = 3,
          eq_lcfs_polygon = ([0, 1, 1, 0], [0, 0, 1, 1]),
          eq_limiter_polygon = ([0, 2, 2, 0], [0, 0, 2, 2]),
          eq_time = 1\<rparr>"
  unfolding mast_time_def ex_mast_indices_half
  by (simp add: ex_mast_def ex_mast_signals_def sbind_def getitem_def list_getitem_def Let_def
      process_efit_lcfs_polygon_def slice_to_def squeeze_slice_to_def)

lemma ex_mastu_index_3: "mastu_index ex_mastu 3 = Inr 3"
  by (simp add: mastu_index_def ex_mastu_def sbind_def)

lemma ex_mastu_index_half: "mastu_index ex_mastu (1 / 2) = Inr 0"
  by (simp add: mastu_index_def ex_mastu_def sbind_def)

lemma ex_mastu_time_half:
  "mastu_time ex_mastu (1 / 2) =
     Inr \<lparr>eq_r = [1, 2], eq_z = [0, 1], eq_psi = [[1, 2], [3, 4]],
          eq_psi_axis = 2, eq_psi_lcfs = 1, eq_axis_coord = (1, 0),
          eq_xpoints = [(1, - 1)], eq_strike_points = [(1, - 2), (2, - 2)],
          eq_f_profile = ([0, 1], [5, 6]), eq_q_profile = ([0, 1], [7, 8]),
          eq_b_vacuum_radius = 1, eq_b_vacuum_magnitude = 3,
          eq_lcfs_polygon = ([0, 1, 1, 0], [0, 0, 1, 1]),
          eq_limiter_polygon = ([0, 2, 2, 0], [0, 0, 2, 2]),
          eq_time = 0\<rparr>"
  unfolding mastu_time_def ex_mastu_index_half
  by (simp add: ex_mastu_def ex_mastu_signals_def sbind_def getitem_def list_getitem_def Let_def
      open_polygon_def)

lemma ex_mastu_time_3:
  "mastu_time ex_mastu 3 =
     Inr \<lparr>eq_r = [1, 2], eq_z = [0, 1], eq_psi = [[1, 2], [3, 4]],
          eq_psi_axis = 2, eq_psi_lcfs = 1, eq_axis_coord = (1, 0),
          eq_xpoints = [(1, - 1)], eq_strike_points = [(1, - 2), (2, - 2)],
          eq_f_profile = ([0, 1], [5, 6]), eq_q_profile = ([0, 1], [7, 8]),
          eq_b_vacuum_radius = 1, eq_b_vacuum_magnitude = 3,
          eq_lcfs_polygon = ([0, 1, 1, 0], [0, 0, 1, 1]),
          eq_limiter_polygon = ([0, 2, 2, 0], [0, 0, 2, 2]),
          eq_time = 3\<rparr>"
  unfolding mastu_time_def ex_mastu_index_3
  by (simp add: ex_mastu_def ex_mastu_signals_def sbind_def getitem_def list_getitem_def Let_def
      open_polygon_def)

lemma ex_twice_closed_init:
  "mastu_init ex_mastu_flux ex_twice_closed_archive (PyInt 45000) = Inr ex_twice_closed"
  by (simp add: mastu_init_def mastu_load_def sbind_def ex_mastu_flux_def
      ex_twice_closed_archive_def ex_twice_closed_signals_def ex_twice_closed_def
      ex_mastu_signals_def ex_mastu_def Let_def numeral_eq_Suc py_int_def slice_to_def)

lemma ex_twice_closed_index_3: "mastu_index ex_twice_closed 3 = Inr 3"
  by (simp add: mastu_index_def ex_twice_closed_def ex_mastu_def sbind_def)

lemma ex_twice_closed_time_3:
  "mastu_time ex_twice_closed 3 =
     Inr \<lparr>eq_r = [1, 2], eq_z = [0, 1], eq_psi = [[1, 2], [3, 4]],
          eq_psi_axis = 2, eq_psi_lcfs = 1, eq_axis_coord = (1, 0),
          eq_xpoints = [(1, - 1)], eq_strike_points = [(1, - 2), (2, - 2)],
          eq_f_profile = ([0, 1], [5, 6]), eq_q_profile = ([0, 1], [7, 8]),
          eq_b_vacuum_radius = 1, eq_b_vacuum_magnitude = 3,
          eq_lcfs_polygon = ([0, 1, 1, 0], [0, 0, 1, 0]),
          eq_limiter_polygon = ([0, 2, 2, 0], [0, 0, 2, 2]),
          eq_time = 3\<rparr>"
  unfolding mastu_time_def ex_twice_closed_index_3
  by (simp add: ex_twice_closed_def ex_twice_closed_signals_def ex_mastu_def
      ex_mastu_signals_def sbind_def getitem_def list_getitem_def Let_def open_polygon_def)

section \<open>Facts about the resolver and the two readers\<close>

lemma find_nearest_outside:
  assumes "a \<noteq> []" and "v < Min (set a) \<or> Max (set a) < v"
  shows "find_nearest a v = Inl outside_range"
  using assms(2) by (auto simp: find_nearest_def amin_Min [OF assms(1)] amax_Max [OF assms(1)] sbind_def)

lemma find_nearest_in_range:
  assumes "sorted_wrt (<) a" and "a \<noteq> []"
    and "Min (set a) \<le> v" and "v \<le> Max (set a)"
  shows "find_nearest a v =
         (if searchsorted a v + 1 < length a then Inr (searchsorted a v) else Inl out_of_bounds)"
proof -
  have s: "sorted a" using assms(1) by (simp add: strict_sorted_iff)
  note i = searchsorted_in_range [OF s assms(2,4)]
  have closer: "(v - a ! searchsorted a v)\<^sup>2 < (v - a ! (searchsorted a v + 1))\<^sup>2"
    if "searchsorted a v + 1 < length a"
  proof -
    have "a ! searchsorted a v < a ! (searchsorted a v + 1)"
      using assms(1) that by (simp add: sorted_wrt_nth_less)
    with i(2) have "\<bar>v - a ! searchsorted a v\<bar> < \<bar>v - a ! (searchsorted a v + 1)\<bar>" by simp
    then have "\<bar>v - a ! searchsorted a v\<bar>\<^sup>2 < \<bar>v - a ! (searchsorted a v + 1)\<bar>\<^sup>2"
      by (intro power_strict_mono) simp_all
    then show ?thesis by simp
  qed
  show ?thesis
    using assms(3,4) i(1) closer
    by (simp add: find_nearest_def amin_Min [OF assms(2)] amax_Max [OF assms(2)] sbind_def
        getitem_def Let_def)
qed

lemma find_nearest_follows_rule:
  assumes "sorted_wrt (<) a" and "a \<noteq> []"
    and "Min (set a) \<le> v" and "v \<le> Max (set a)"
    and "insertion_point a v + 1 < length a"
  shows "find_nearest a v = Inr (nearest_rule a v)"
proof -
  have s: "sorted a" using assms(1) by (simp add: strict_sorted_iff)
  have ip: "insertion_point a v = searchsorted a v"
    using searchsorted_insertion_point [OF s] by simp
  show ?thesis
    using assms(3-5)
    by (simp add: find_nearest_def amin_Min [OF assms(2)] amax_Max [OF assms(2)] sbind_def
        getitem_def nearest_rule_def ip Let_def)
qed

lemma searchsorted_maximum:
  assumes "sorted_wrt (<) a" and "a \<noteq> []"
  shows "searchsorted a (Max (set a)) = length a - 1"
proof -
  define i where "i = searchsorted a (Max (set a))"
  have s: "sorted a" using assms(1) by (simp add: strict_sorted_iff)
  have i: "i < length a" "Max (set a) \<le> a ! i"
    using searchsorted_in_range(1,2) [OF s assms(2), of "Max (set a)"] by (simp_all add: i_def)
  have "\<not> i + 1 < length a"
  proof
    assume n: "i + 1 < length a"
    then have "a ! i < a ! (i + 1)" using assms(1) by (simp add: sorted_wrt_nth_less)
    moreover have "a ! (i + 1) \<le> Max (set a)" using n by (intro Max_ge) simp_all
    ultimately show False using i(2) by simp
  qed
  with i(1) show ?thesis by (simp add: i_def)
qed

lemma find_nearest_refuses_maximum:
  assumes "sorted_wrt (<) a" and "a \<noteq> []"
  shows "find_nearest a (Max (set a)) = Inl out_of_bounds"
    and "nearest_rule a (Max (set a)) = length a - 1"
proof -
  have s: "sorted a" using assms(1) by (simp add: strict_sorted_iff)
  have "Min (set a) \<le> Max (set a)" using assms(2) by simp
  then show "find_nearest a (Max (set a)) = Inl out_of_bounds"
    using find_nearest_in_range [OF assms, of "Max (set a)"] searchsorted_maximum [OF assms]
      assms(2)
    by simp
  have ip: "insertion_point a (Max (set a)) = length a - 1"
    using searchsorted_insertion_point [OF s, of "Max (set a)"] searchsorted_maximum [OF assms]
    by simp
  have "\<not> length a - 1 + 1 < length a" using assms(2) by simp
  then show "nearest_rule a (Max (set a)) = length a - 1"
    unfolding nearest_rule_def Let_def ip by (simp only: if_False)
qed

lemma mast_init_time_range:
  assumes "mast_init fetch pulse = Inr self"
  shows "mast_time_slices self \<noteq> []"
    and "mast_time_range self = (Min (set (mast_time_slices self)), Max (set (mast_time_slices self)))"
proof -
  from assms obtain s where s: "fetch pulse = Inr s"
    and self: "sbind (amin (mast_psi_times s)) (\<lambda>lo. sbind (amax (mast_psi_times s)) (\<lambda>hi.
         Inr \<lparr>mast_sig = s, mast_time_slices = mast_psi_times s,
              mast_xpoints = map (\<lambda>(r1, z1, r2, z2). ((r1, z1), (r2, z2)))
                  (zip (mast_xpoint1r s) (zip (mast_xpoint1z s)
                     (zip (mast_xpoint2r s) (mast_xpoint2z s)))),
              mast_time_range = (lo, hi)\<rparr>)) = Inr self"
    by (auto simp: mast_init_def sbind_def Let_def split: sum.splits if_splits)
  have ne: "mast_psi_times s \<noteq> []"
    using self by (cases "mast_psi_times s") (simp_all add: sbind_def)
  from self have "self = \<lparr>mast_sig = s, mast_time_slices = mast_psi_times s,
              mast_xpoints = map (\<lambda>(r1, z1, r2, z2). ((r1, z1), (r2, z2)))
                  (zip (mast_xpoint1r s) (zip (mast_xpoint1z s)
                     (zip (mast_xpoint2r s) (mast_xpoint2z s)))),
              mast_time_range = (Min (set (mast_psi_times s)), Max (set (mast_psi_times s)))\<rparr>"
    by (simp add: amin_Min [OF ne] amax_Max [OF ne] sbind_def)
  with ne show "mast_time_slices self \<noteq> []"
    and "mast_time_range self = (Min (set (mast_time_slices self)), Max (set (mast_time_slices self)))"
    by simp_all
qed

lemma mast_time_outside:
  assumes "mast_init fetch pulse = Inr self"
    and "t < Min (set (mast_time_slices self)) \<or> Max (set (mast_time_slices self)) < t"
  shows "mast_time self t =
         Inl (ValueError (TimeRange (Min (set (mast_time_slices self)))
                (Max (set (mast_time_slices self)))))"
  using find_nearest_outside [OF mast_init_time_range(1) [OF assms(1)] assms(2)]
  by (simp add: mast_time_def mast_indices_def sbind_def outside_range_def
      mast_init_time_range(2) [OF assms(1)])

lemma mastu_time_outside:
  assumes "mu_time_slices self \<noteq> []"
    and "t < Min (set (mu_time_slices self)) \<or> Max (set (mu_time_slices self)) < t"
  shows "mastu_time self t =
         Inl (ValueError (TimeRange (Min (set (mu_time_slices self)))
                (Max (set (mu_time_slices self)))))"
  using assms(2)
  by (auto simp: mastu_time_def mastu_index_def sbind_def amin_Min [OF assms(1)] amax_Max [OF assms(1)])

lemma time_raises_before_constructor:
  "mast_time self t = Inl e \<Longrightarrow> MASTEquilibrium_time EFITEquilibrium self t = Inl e"
  "mastu_time u t = Inl e \<Longrightarrow> MASTUEquilibrium_time EFITEquilibrium u t = Inl e"
  by (simp_all add: MASTEquilibrium_time_def MASTUEquilibrium_time_def sbind_def)

lemma filter_butlast_closed:
  assumes "ps \<noteq> []" and "last ps = p0" and "\<forall>i. i < length ps - 1 \<longrightarrow> ps ! i \<noteq> p0"
  shows "filter (\<lambda>p. p \<noteq> p0) ps = butlast ps"
proof -
  have ps: "ps = butlast ps @ [p0]" using assms(1,2) by (metis append_butlast_last_id)
  have "\<forall>p \<in> set (butlast ps). p \<noteq> p0"
  proof
    fix p assume "p \<in> set (butlast ps)"
    then obtain i where "i < length (butlast ps)" "butlast ps ! i = p"
      by (auto simp: in_set_conv_nth)
    then have "i < length ps - 1" "ps ! i = p" by (simp_all add: nth_butlast)
    with assms(3) show "p \<noteq> p0" by auto
  qed
  then have "filter (\<lambda>p. p \<noteq> p0) (butlast ps) = butlast ps" by (simp add: filter_id_conv)
  then have "filter (\<lambda>p. p \<noteq> p0) (butlast ps @ [p0]) = butlast ps" by simp
  with ps show ?thesis by simp
qed

lemma ex_mast_time_3: "mast_time ex_mast 3 = Inl (ValueError (TimeRange 0 3))"
  by (simp add: mast_time_def ex_mast_indices_3 sbind_def)

lemma ex_mastu_load_float:
  "mastu_load ex_mastu_flux ex_mastu_archive (PyFloat 100) = Inr ex_mastu"
  by (simp add: mastu_load_def sbind_def ex_mastu_flux_def ex_mastu_archive_def
      ex_mastu_signals_def ex_mastu_def Let_def numeral_eq_Suc py_int_def slice_to_def)

lemma lower_ids:
  "lower ''SXD'' = ''sxd''" "lower ''SXDL'' = ''sxdl''" "lower ''Core'' = ''core''"
  "lower ''Foo'' = ''foo''" "lower ''Outer'' = ''outer''"
  by (simp_all add: lower_def lower_char_def capitals_def smalls_def)

lemma process_efit_lcfs_polygon_first_unique:
  assumes "process_efit_lcfs_polygon poly_r poly_z = Inr ps"
  shows "ps \<noteq> [] \<and> hd ps = (poly_r ! 0, poly_z ! 0) \<and> (\<forall>p \<in> set (tl ps). p \<noteq> hd ps)"
proof -
  from assms have l: "length poly_r = length poly_z" "2 \<le> length poly_r"
    by (auto simp: process_efit_lcfs_polygon_def Let_def split: if_splits)
  from process_efit_lcfs_polygon_filter [OF l] assms
  have "ps = (poly_r ! 0, poly_z ! 0)
              # filter (\<lambda>p. p \<noteq> (poly_r ! 0, poly_z ! 0)) (tl (zip poly_r poly_z))" by simp
  then show ?thesis by simp
qed

lemma sbind_Inr: "sbind m f = Inr y \<Longrightarrow> \<exists>x. m = Inr x \<and> f x = Inr y"
  by (cases m) (simp_all add: sbind_def)

lemma mast_time_polygons:
  assumes "mast_time self t = Inr s"
  shows "vertices (eq_lcfs_polygon s) \<noteq> []
       \<and> (\<forall>p \<in> set (tl (vertices (eq_lcfs_polygon s))). p \<noteq> hd (vertices (eq_lcfs_polygon s)))
       \<and> vertices (eq_limiter_polygon s) \<noteq> []
       \<and> (\<forall>p \<in> set (tl (vertices (eq_limiter_polygon s))). p \<noteq> hd (vertices (eq_limiter_polygon s)))"
proof -
  from assms obtain r1 z1 r2 z2 lcfs lim where
    l: "process_efit_lcfs_polygon r1 z1 = Inr lcfs"
    and m: "process_efit_lcfs_polygon r2 z2 = Inr lim"
    and s: "eq_lcfs_polygon s = (map fst lcfs, map snd lcfs)"
      "eq_limiter_polygon s = (map fst lim, map snd lim)"
    unfolding mast_time_def Let_def
    by (auto dest!: sbind_Inr simp: split_beta)
  have "vertices (eq_lcfs_polygon s) = lcfs" "vertices (eq_limiter_polygon s) = lim"
    by (simp_all add: s vertices_def zip_map_fst_snd)
  then show ?thesis
    using process_efit_lcfs_polygon_first_unique [OF l]
      process_efit_lcfs_polygon_first_unique [OF m] by auto
qed

section \<open>Facts about the loader and the batch driver\<close>

lemma load_unpack:
  assumes "length (split_on CHR ''-'' bolometer_id) \<noteq> 2"
  shows "load_default_bolometer_config geometry sxd core assemble bolometer_id shot =
         Inl (unpack_error (length (split_on CHR ''-'' bolometer_id)))"
proof -
  define parts where "parts = map strip (split_on CHR ''-'' bolometer_id)"
  have "length parts \<noteq> 2" using assms by (simp add: parts_def)
  then have "(case parts of
        [chamber, camera_name] \<Rightarrow> f chamber camera_name
      | parts \<Rightarrow> Inl (unpack_error (length parts))) = Inl (unpack_error (length parts))" for f :: "string \<Rightarrow> string \<Rightarrow> error + 'e"
    by (auto split: list.splits)
  then show ?thesis
    unfolding load_default_bolometer_config_def parts_def [symmetric]
    by (simp add: parts_def)
qed

lemma load_chamber:
  assumes "map strip (split_on CHR ''-'' bolometer_id) = [chamber, camera_name]"
    and "lower chamber \<notin> set [''sxdl'', ''core'']"
  shows "load_default_bolometer_config geometry sxd core assemble bolometer_id shot =
         Inl chamber_error"
  using assms(2) unfolding load_default_bolometer_config_def assms(1) by simp

lemma load_sxdl_camera:
  assumes "map strip (split_on CHR ''-'' bolometer_id) = [chamber, camera_name]"
    and "lower chamber = ''sxdl''"
    and "geometry ''/bolo/sxdl'' shot = Inr g"
    and "lower camera_name \<notin> set [''outer'', ''upper'']"
  shows "load_default_bolometer_config geometry sxd core assemble bolometer_id shot =
         Inl sxdl_camera_error"
  using assms(2-4) unfolding load_default_bolometer_config_def assms(1)
  by (simp add: sbind_def)

lemma load_core_camera:
  assumes "map strip (split_on CHR ''-'' bolometer_id) = [chamber, camera_name]"
    and "lower chamber = ''core''"
    and "geometry ''/bolo/core'' shot = Inr g"
    and "lower camera_name \<notin> set [''poloidal'', ''tangential'']"
  shows "load_default_bolometer_config geometry sxd core assemble bolometer_id shot =
         Inl core_camera_error"
  using assms(2-4) unfolding load_default_bolometer_config_def assms(1)
  by (simp add: sbind_def)

lemma load_query_fails:
  assumes "map strip (split_on CHR ''-'' bolometer_id) = [chamber, camera_name]"
    and "lower chamber \<in> set [''sxdl'', ''core'']"
    and "geometry (''/bolo/'' @ lower chamber) shot = Inl e"
  shows "load_default_bolometer_config geometry sxd core assemble bolometer_id shot =
         Inl (if is_AttributeError e then uda_error else e)"
  using assms(2,3) unfolding load_default_bolometer_config_def assms(1)
  by (cases e) (simp_all add: sbind_def is_AttributeError_def)

lemma strip_no_break_space:
  "map strip (split_on CHR ''-'' (''SXDL'' @ [CHR 0xA0] @ ''- Outer'' @ [CHR 0x85]))
     = [''SXDL'', ''Outer'']"
  by (simp add: strip_def isspace_def)

lemma main_unknown_camera:
  assumes "1 < length argv"
    and "argv ! 1 \<notin> set [''Outer'', ''Upper'', ''Poloidal'', ''Tangential'',
           ''PoloidalHighRes'', ''TangentialHighRes'', ''Poloidal-MAST'']"
  shows "main argv calculate = Inl camera_error"
  using assms by (simp add: main_def Let_def)

section \<open>The nearest-index resolver against the specification\<close>

text \<open>
  Claim C1 says that, on a strictly ascending array and a query within its range,
  \<open>_find_nearest\<close> returns the index of the sample nearest to the query, and index 2 for
  the samples 0.0, 0.1, 0.2, 0.3 and the query 0.24. The code does not: the bisection
  yields the first sample at or above the query, which is then compared with the sample
  after it, never with the one before. On the example the index after the insertion
  point does not exist and the read raises IndexError; on the query 0.14 the result is
  index 2 although the sample at index 1 is nearer.
\<close>

theorem find_nearest_misses_nearest:
  "find_nearest [0, 1 / 10, 2 / 10, 3 / 10] (24 / 100) = Inl out_of_bounds
   \<and> find_nearest [0, 1 / 10, 2 / 10, 3 / 10] (14 / 100) = Inr 2
   \<and> \<bar>14 / 100 - [0, 1 / 10, 2 / 10, 3 / 10 :: real] ! 1\<bar>
       < \<bar>14 / 100 - [0, 1 / 10, 2 / 10, 3 / 10 :: real] ! 2\<bar>"
  by (simp add: find_nearest_def sbind_def searchsorted_def bisect_left.simps getitem_def
      Let_def power2_eq_square)

text \<open>
  Claim C5 says that, on a strictly ascending array and a query within its range,
  \<open>_find_nearest\<close> is the rule of the specification: find the insertion point, compare
  the squared distances to the sample there and to the next one, return the closer
  index, the later one on a tie. The code is that rule as long as a sample stands
  after the insertion point (\<open>find_nearest_follows_rule\<close>). It reads the next sample
  without asking whether there is one: for a query at the largest sample, which is
  within the range, the rule gives the last index and the code raises the IndexError
  of the read beyond the array (\<open>find_nearest_refuses_maximum\<close>, for every array). The
  samples 0, 1, 2, 3 and the query 3 show it.
\<close>

theorem find_nearest_refuses_largest_sample:
  "sorted_wrt (<) [0, 1, 2, 3 :: real]
   \<and> Min (set [0, 1, 2, 3 :: real]) \<le> 3 \<and> 3 \<le> Max (set [0, 1, 2, 3 :: real])
   \<and> nearest_rule [0, 1, 2, 3] 3 = 3
   \<and> find_nearest [0, 1, 2, 3] 3 = Inl out_of_bounds"
  by (simp add: nearest_rule_def insertion_point_def find_nearest_def sbind_def
      searchsorted_def bisect_left.simps getitem_def Let_def)

section \<open>Queries outside the archived range\<close>

text \<open>
  Claim C2: a query time strictly below the least or strictly above the greatest sample
  makes \<open>time()\<close> raise a ValueError that carries the two bounds of the data. For
  \<open>MASTEquilibrium\<close> the object is one that the constructor returned, which is where
  its \<open>time_range\<close> comes from; \<open>MASTUEquilibrium.time\<close> computes the bounds itself.
\<close>

theorem time_outside_range_raises:
  "(mast_init fetch pulse = Inr self \<and>
      (t < Min (set (mast_time_slices self)) \<or> Max (set (mast_time_slices self)) < t)
    \<longrightarrow> mast_time self t =
         Inl (ValueError (TimeRange (Min (set (mast_time_slices self)))
                (Max (set (mast_time_slices self))))))
   \<and> (mu_time_slices u \<noteq> [] \<and>
      (t < Min (set (mu_time_slices u)) \<or> Max (set (mu_time_slices u)) < t)
    \<longrightarrow> mastu_time u t =
         Inl (ValueError (TimeRange (Min (set (mu_time_slices u)))
                (Max (set (mu_time_slices u))))))"
  using mast_time_outside [of fetch pulse self t] mastu_time_outside [of u t] by blast

theorem time_outside_range_raises_witness:
  "mast_init ex_mast_archive (PyInt 30000) = Inr ex_mast
   \<and> (5 < Min (set (mast_time_slices ex_mast)) \<or> Max (set (mast_time_slices ex_mast)) < 5)
   \<and> mast_time ex_mast 5 = Inl (ValueError (TimeRange 0 3))
   \<and> mu_time_slices ex_mastu \<noteq> []
   \<and> (5 < Min (set (mu_time_slices ex_mastu)) \<or> Max (set (mu_time_slices ex_mastu)) < 5)
   \<and> mastu_time ex_mastu 5 = Inl (ValueError (TimeRange 0 3))"
proof -
  have ts: "mast_time_slices ex_mast = [0, 1, 2, 3]" "mu_time_slices ex_mastu = [0, 1, 2, 3]"
    by (simp_all add: ex_mast_def ex_mastu_def)
  show ?thesis
    using time_outside_range_raises [of ex_mast_archive "PyInt 30000" ex_mast 5 ex_mastu]
      ex_mast_init
    by (simp add: ts)
qed

section \<open>What the sanitiser returns\<close>

text \<open>
  Claim C6: for two arrays of one length with at least 2 points, the sanitiser keeps the
  first point as the first vertex, drops every later point equal to it in both
  coordinates and keeps every other point, in order and as often as it occurs.
\<close>

theorem sanitiser_keeps_first_drops_its_copies:
  assumes "length poly_r = length poly_z" and "2 \<le> length poly_r"
  shows "process_efit_lcfs_polygon poly_r poly_z =
         Inr ((poly_r ! 0, poly_z ! 0)
              # filter (\<lambda>p. p \<noteq> (poly_r ! 0, poly_z ! 0)) (tl (zip poly_r poly_z)))"
  using assms by (rule process_efit_lcfs_polygon_filter)

theorem sanitiser_keeps_first_drops_its_copies_witness:
  "length [0, 1, 1, 0, 2, 0 :: real] = length [0, 0, 0, 0, 2, 0 :: real]
   \<and> 2 \<le> length [0, 1, 1, 0, 2, 0 :: real]
   \<and> process_efit_lcfs_polygon [0, 1, 1, 0, 2, 0] [0, 0, 0, 0, 2, 0] =
       Inr [(0, 0), (1, 0), (1, 0), (2, 2)]"
  using sanitiser_keeps_first_drops_its_copies [of "[0, 1, 1, 0, 2, 0]" "[0, 0, 0, 0, 2, 0]"]
  by simp

text \<open>
  Claim C3 says that a closed polygon of N \<open>\<ge>\<close> 3 points always comes back with N - 1
  points. It does not when the first point occurs in between as well: the five points
  below end in two copies of the first one and three points come back.
\<close>

theorem closed_polygon_counterexample:
  "length [0, 1, 1, 0, 0 :: real] = length [0, 0, 1, 0, 0 :: real]
   \<and> 3 \<le> length [0, 1, 1, 0, 0 :: real]
   \<and> ([0, 1, 1, 0, 0 :: real] ! 0, [0, 0, 1, 0, 0 :: real] ! 0)
       = (last [0, 1, 1, 0, 0], last [0, 0, 1, 0, 0])
   \<and> process_efit_lcfs_polygon [0, 1, 1, 0, 0] [0, 0, 1, 0, 0] = Inr [(0, 0), (1, 0), (1, 1)]
   \<and> length [(0, 0), (1, 0), (1 :: real, 1 :: real)] \<noteq> length [0, 1, 1, 0, 0 :: real] - 1"
  by (simp add: process_efit_lcfs_polygon_def)

text \<open>
  Claim C3, amended: a closed polygon of N \<open>\<ge>\<close> 3 points in which no point other than
  the last equals the first comes back as its first N - 1 points, so the first vertex
  stays first and the last vertex differs from it; the closed unit square comes back as
  its four corners.
\<close>

theorem closed_polygon_loses_closing_vertex:
  "(length poly_r = length poly_z \<and> 3 \<le> length poly_r
     \<and> poly_r ! 0 = last poly_r \<and> poly_z ! 0 = last poly_z
     \<and> (\<forall>i. 0 < i \<and> i < length poly_r - 1 \<longrightarrow>
           (poly_r ! i, poly_z ! i) \<noteq> (poly_r ! 0, poly_z ! 0))
     \<longrightarrow> (\<exists>ps. process_efit_lcfs_polygon poly_r poly_z = Inr ps
           \<and> length ps = length poly_r - 1
           \<and> ps = butlast (zip poly_r poly_z)
           \<and> hd ps = (poly_r ! 0, poly_z ! 0)
           \<and> last ps \<noteq> (poly_r ! 0, poly_z ! 0)))
   \<and> process_efit_lcfs_polygon [0, 1, 1, 0, 0] [0, 0, 1, 1, 0]
       = Inr [(0, 0), (1, 0), (1, 1), (0, 1)]"
proof (intro conjI impI)
  show "process_efit_lcfs_polygon [0, 1, 1, 0, 0] [0, 0, 1, 1, 0]
       = Inr [(0, 0), (1, 0), (1, 1), (0, 1)]"
    by (simp add: process_efit_lcfs_polygon_def)
next
  assume h: "length poly_r = length poly_z \<and> 3 \<le> length poly_r
     \<and> poly_r ! 0 = last poly_r \<and> poly_z ! 0 = last poly_z
     \<and> (\<forall>i. 0 < i \<and> i < length poly_r - 1 \<longrightarrow>
           (poly_r ! i, poly_z ! i) \<noteq> (poly_r ! 0, poly_z ! 0))"
  define ps where "ps = zip poly_r poly_z"
  define p0 where "p0 = (poly_r ! 0, poly_z ! 0)"
  from h have "\<forall>i. 0 < i \<and> i < length poly_r - 1 \<longrightarrow> (poly_r ! i, poly_z ! i) \<noteq> p0"
    unfolding p0_def by (elim conjE)
  then have h5: "(poly_r ! i, poly_z ! i) \<noteq> p0" if "0 < i" "i < length poly_r - 1" for i
    using that by (elim allE [of _ i] impE) (intro conjI)
  have len: "length ps = length poly_r" "3 \<le> length ps" using h by (simp_all add: ps_def)
  have nth: "ps ! i = (poly_r ! i, poly_z ! i)" if "i < length ps" for i
    using that h by (simp add: ps_def)
  obtain q qs where ps: "ps = q # qs" using len(2) by (cases ps) auto
  have q: "q = p0" using nth [of 0] len by (simp add: ps p0_def)
  have qs: "qs \<noteq> []" "length qs = length poly_r - 1" using len by (auto simp: ps)
  have ne: "ps \<noteq> []" "poly_r \<noteq> []" "poly_z \<noteq> []" using len h by auto
  have "last ps = ps ! (length ps - 1)" using ne by (simp add: last_conv_nth)
  also have "\<dots> = (poly_r ! (length ps - 1), poly_z ! (length ps - 1))"
    using len by (intro nth) simp
  also have "\<dots> = (last poly_r, last poly_z)"
    using ne len h by (simp add: last_conv_nth)
  finally have "last ps = (last poly_r, last poly_z)" .
  then have lastqs: "last qs = p0" using h qs by (simp add: ps p0_def)
  have inner: "\<forall>i. i < length qs - 1 \<longrightarrow> qs ! i \<noteq> p0"
  proof (intro allI impI)
    fix i assume i: "i < length qs - 1"
    then have "qs ! i = ps ! (i + 1)" by (simp add: ps)
    also have "\<dots> = (poly_r ! (i + 1), poly_z ! (i + 1))" using i qs len by (intro nth) simp
    also have "\<dots> \<noteq> p0"
    proof (rule h5)
      show "0 < i + 1" by simp
      show "i + 1 < length poly_r - 1" using i qs by simp
    qed
    finally show "qs ! i \<noteq> p0" .
  qed
  have f: "filter (\<lambda>p. p \<noteq> p0) qs = butlast qs"
    using filter_butlast_closed [OF qs(1) lastqs inner] .
  have h1: "length poly_r = length poly_z" and h2: "2 \<le> length poly_r" using h by simp_all
  have "process_efit_lcfs_polygon poly_r poly_z = Inr (p0 # filter (\<lambda>p. p \<noteq> p0) (tl ps))"
    unfolding ps_def p0_def by (rule process_efit_lcfs_polygon_filter [OF h1 h2])
  then have res: "process_efit_lcfs_polygon poly_r poly_z = Inr (p0 # butlast qs)"
    using f by (simp add: ps)
  have bl: "butlast ps = p0 # butlast qs" using qs by (simp add: ps q)
  have two: "2 \<le> length qs" using qs len by simp
  have "butlast qs \<noteq> []" using two by (cases qs rule: rev_cases) auto
  then have "last (p0 # butlast qs) = qs ! (length qs - 2)"
    using two by (simp add: last_conv_nth nth_butlast numeral_2_eq_2)
  moreover have "qs ! (length qs - 2) \<noteq> p0" using inner two by simp
  ultimately have "last (p0 # butlast qs) \<noteq> p0" by simp
  moreover have "length (p0 # butlast qs) = length poly_r - 1" using qs two by simp
  ultimately have "process_efit_lcfs_polygon poly_r poly_z = Inr (p0 # butlast qs)
           \<and> length (p0 # butlast qs) = length poly_r - 1
           \<and> p0 # butlast qs = butlast ps
           \<and> hd (p0 # butlast qs) = p0
           \<and> last (p0 # butlast qs) \<noteq> p0"
    using res bl by simp
  then show "\<exists>ps. process_efit_lcfs_polygon poly_r poly_z = Inr ps
           \<and> length ps = length poly_r - 1
           \<and> ps = butlast (zip poly_r poly_z)
           \<and> hd ps = (poly_r ! 0, poly_z ! 0)
           \<and> last ps \<noteq> (poly_r ! 0, poly_z ! 0)"
    unfolding ps_def p0_def by blast
qed

theorem closed_polygon_loses_closing_vertex_witness:
  "length [0, 1, 1, 0, 0 :: real] = length [0, 0, 1, 1, 0 :: real]
   \<and> 3 \<le> length [0, 1, 1, 0, 0 :: real]
   \<and> [0, 1, 1, 0, 0 :: real] ! 0 = last [0, 1, 1, 0, 0]
   \<and> [0, 0, 1, 1, 0 :: real] ! 0 = last [0, 0, 1, 1, 0]
   \<and> (\<exists>ps. process_efit_lcfs_polygon [0, 1, 1, 0, 0] [0, 0, 1, 1, 0] = Inr ps
         \<and> length ps = 4 \<and> hd ps = (0, 0) \<and> last ps \<noteq> (0, 0))"
proof -
  have inner: "\<forall>i. 0 < i \<and> i < length [0, 1, 1, 0, 0 :: real] - 1 \<longrightarrow>
      ([0, 1, 1, 0, 0 :: real] ! i, [0, 0, 1, 1, 0 :: real] ! i)
        \<noteq> ([0, 1, 1, 0, 0] ! 0, [0, 0, 1, 1, 0] ! 0)"
  proof (intro allI impI)
    fix i :: nat assume "0 < i \<and> i < length [0, 1, 1, 0, 0 :: real] - 1"
    then have "i = 1 \<or> i = 2 \<or> i = 3" by auto
    then show "([0, 1, 1, 0, 0 :: real] ! i, [0, 0, 1, 1, 0 :: real] ! i)
        \<noteq> ([0, 1, 1, 0, 0] ! 0, [0, 0, 1, 1, 0] ! 0)" by auto
  qed
  show ?thesis
    using closed_polygon_loses_closing_vertex [of "[0, 1, 1, 0, 0]" "[0, 0, 1, 1, 0]"] inner
    by simp
qed

section \<open>The errors of the sanitiser\<close>

text \<open>
  Claim C7 says that the sanitiser raises the too-few-points error whenever fewer than 2
  points remain. The count is tested before the copies of the first point are removed:
  two equal points pass the test and a single point remains.
\<close>

theorem sanitiser_returns_single_point:
  "process_efit_lcfs_polygon [1, 1] [2, 2] = Inr [(1, 2)]
   \<and> length [(1 :: real, 2 :: real)] < 2"
  by (simp add: process_efit_lcfs_polygon_def)

text \<open>
  Claim C7, amended: the sanitiser raises the shape-mismatch ValueError when the two
  arrays differ in length, the too-few-points ValueError when they agree in length and
  hold fewer than 2 points on entry, and returns a polygon in every other case.
\<close>

theorem sanitiser_errors:
  "(length poly_r \<noteq> length poly_z \<longrightarrow>
      process_efit_lcfs_polygon poly_r poly_z = Inl inconsistent_length)
   \<and> (length poly_r = length poly_z \<and> length poly_r < 2 \<longrightarrow>
      process_efit_lcfs_polygon poly_r poly_z = Inl less_than_2_points)
   \<and> (length poly_r = length poly_z \<and> 2 \<le> length poly_r \<longrightarrow>
      (\<exists>ps. process_efit_lcfs_polygon poly_r poly_z = Inr ps))
   \<and> raises_ValueError (Inl inconsistent_length :: error + unit)
   \<and> raises_ValueError (Inl less_than_2_points :: error + unit)"
  by (simp add: process_efit_lcfs_polygon_def Let_def raises_ValueError_def
      inconsistent_length_def less_than_2_points_def)

theorem sanitiser_errors_witness:
  "length [0, 1 :: real] \<noteq> length [0 :: real]
   \<and> process_efit_lcfs_polygon [0, 1] [0] = Inl inconsistent_length
   \<and> length [0 :: real] = length [5 :: real] \<and> length [0 :: real] < 2
   \<and> process_efit_lcfs_polygon [0] [5] = Inl less_than_2_points
   \<and> length [0, 1 :: real] = length [0, 0 :: real] \<and> 2 \<le> length [0, 1 :: real]
   \<and> (\<exists>ps. process_efit_lcfs_polygon [0, 1] [0, 0] = Inr ps)"
  using sanitiser_errors [of "[0, 1]" "[0]"] sanitiser_errors [of "[0]" "[5]"]
    sanitiser_errors [of "[0, 1]" "[0, 0]"]
  by simp

section \<open>Open boundary polygons\<close>

text \<open>
  Claim C4 says that every boundary polygon of a returned time slice is open, whatever
  the archive holds, closed polygons included. \<open>MASTUEquilibrium.time\<close> drops one
  closing vertex and no more (its comment: first and last points are the same, an open
  polygon is needed). Of the archived boundary (0,0), (1,0), (1,1), (0,0), (0,0) of the
  second MAST-U pulse it hands (0,0), (1,0), (1,1), (0,0) to the constructor of the time
  slice, whatever that constructor is: a polygon whose last vertex is its first. So
  for this archived boundary no slice built from an open polygon comes back. The
  sanitiser of \<open>MASTEquilibrium\<close> removes every such copy (\<open>mast_time_polygons\<close>).
\<close>

theorem mastu_time_hands_over_closed_polygon:
  "mastu_init ex_mastu_flux ex_twice_closed_archive (PyInt 45000) = Inr ex_twice_closed
   \<and> getitem (mu_lcfs_poly_r (mu_sig ex_twice_closed)) 3 = Inr [0, 1, 1, 0, 0]
   \<and> getitem (mu_lcfs_poly_z (mu_sig ex_twice_closed)) 3 = Inr [0, 0, 1, 0, 0]
   \<and> MASTUEquilibrium_time EFITEquilibrium ex_twice_closed 3 =
       EFITEquilibrium
         \<lparr>eq_r = [1, 2], eq_z = [0, 1], eq_psi = [[1, 2], [3, 4]],
          eq_psi_axis = 2, eq_psi_lcfs = 1, eq_axis_coord = (1, 0),
          eq_xpoints = [(1, - 1)], eq_strike_points = [(1, - 2), (2, - 2)],
          eq_f_profile = ([0, 1], [5, 6]), eq_q_profile = ([0, 1], [7, 8]),
          eq_b_vacuum_radius = 1, eq_b_vacuum_magnitude = 3,
          eq_lcfs_polygon = ([0, 1, 1, 0], [0, 0, 1, 0]),
          eq_limiter_polygon = ([0, 2, 2, 0], [0, 0, 2, 2]),
          eq_time = 3\<rparr>
   \<and> vertices ([0, 1, 1, 0], [0, 0, 1, 0]) = [(0, 0), (1, 0), (1, 1), (0, 0)]
   \<and> last (vertices ([0, 1, 1, 0], [0, 0, 1, 0])) = hd (vertices ([0, 1, 1, 0], [0, 0, 1, 0]))"
  by (simp add: ex_twice_closed_init MASTUEquilibrium_time_def ex_twice_closed_time_3
      sbind_def vertices_def)
    (simp add: ex_twice_closed_def ex_twice_closed_signals_def getitem_def)

section \<open>The two ways of choosing the time slice\<close>

text \<open>
  Claim C8: the two readers do not choose the same slice. On the same samples 0, 1, 2, 3
  the query 3, the upper bound of the data, makes \<open>MASTEquilibrium.time\<close> raise the
  out-of-range ValueError while \<open>MASTUEquilibrium.time\<close> returns the slice at 3; and the
  query 1/2, as far from the sample 0 as from the sample 1, makes the former choose
  index 1 and the latter index 0.
\<close>

theorem time_selection_differs:
  "mast_init ex_mast_archive (PyInt 30000) = Inr ex_mast
   \<and> mastu_init ex_mastu_flux ex_mastu_archive (PyInt 45000) = Inr ex_mastu
   \<and> mast_time_slices ex_mast = [0, 1, 2, 3] \<and> mu_time_slices ex_mastu = [0, 1, 2, 3]
   \<and> Min (set [0, 1, 2, 3 :: real]) \<le> 3 \<and> 3 \<le> Max (set [0, 1, 2, 3 :: real])
   \<and> mast_time ex_mast 3 = Inl (ValueError (TimeRange 0 3))
   \<and> (\<exists>s. mastu_time ex_mastu 3 = Inr s \<and> eq_time s = 3)
   \<and> \<bar>[0, 1, 2, 3 :: real] ! 0 - 1 / 2\<bar> = \<bar>[0, 1, 2, 3 :: real] ! 1 - 1 / 2\<bar>
   \<and> mast_indices ex_mast (1 / 2) = Inr (1, 1)
   \<and> mastu_index ex_mastu (1 / 2) = Inr 0
   \<and> (\<exists>s s'. mast_time ex_mast (1 / 2) = Inr s \<and> mastu_time ex_mastu (1 / 2) = Inr s'
         \<and> eq_time s = 1 \<and> eq_time s' = 0)"
  by (simp add: ex_mast_init ex_mastu_init ex_mast_time_3 ex_mast_indices_half
      ex_mastu_index_half ex_mast_time_half ex_mastu_time_half ex_mastu_time_3)
    (simp add: ex_mast_def ex_mastu_def)

section \<open>Configuration errors\<close>

text \<open>
  Claim C9 says that an unrecognised camera makes \<open>load_default_bolometer_config\<close> raise
  a ValueError at once. The camera is looked at only after the geometry of the chamber
  has been fetched: when that query fails, the failure of the query is raised and the
  camera name is never examined.
\<close>

theorem camera_check_follows_archive_query:
  "map strip (split_on CHR ''-'' ''SXDL - Foo'') = [''SXDL'', ''Foo'']
   \<and> lower ''SXDL'' = ''sxdl''
   \<and> lower ''Foo'' \<notin> set [''outer'', ''upper'']
   \<and> load_default_bolometer_config geometry_down [] [] assemble_any ''SXDL - Foo'' 50000
       = Inl (UDAException (Text ''no server''))
   \<and> \<not> raises_ValueError (Inl (UDAException (Text ''no server'')) :: error + unit)"
  by (simp add: load_default_bolometer_config_def strip_def isspace_def lower_ids sbind_def
      raises_ValueError_def geometry_down_def)

text \<open>
  Claim C9, amended: an identifier that does not split at the hyphen into exactly two
  parts, or whose chamber part is neither SXDL nor CORE in any spelling of capitals,
  makes \<open>load_default_bolometer_config\<close> raise a ValueError before any archive query,
  whatever the archive would answer; an identifier with a recognised chamber and a
  camera part that is not one of the two cameras of that chamber makes it raise a
  ValueError once the geometry query for the chamber has succeeded; when that query
  fails, the camera is not examined and the failure is raised in place of any camera
  error, an AttributeError of the query as a UDAException and every other error as it
  is; and the batch driver raises a ValueError for every camera argument outside its
  seven names.
\<close>

theorem configuration_errors:
  "(length (split_on CHR ''-'' bolometer_id) \<noteq> 2 \<longrightarrow>
      load_default_bolometer_config geometry sxd core assemble bolometer_id shot =
        Inl (unpack_error (length (split_on CHR ''-'' bolometer_id))))
   \<and> (map strip (split_on CHR ''-'' bolometer_id) = [chamber, camera_name]
        \<and> lower chamber \<notin> set [''sxdl'', ''core''] \<longrightarrow>
      load_default_bolometer_config geometry sxd core assemble bolometer_id shot =
        Inl chamber_error)
   \<and> (map strip (split_on CHR ''-'' bolometer_id) = [chamber, camera_name]
        \<and> lower chamber = ''sxdl'' \<and> geometry ''/bolo/sxdl'' shot = Inr g
        \<and> lower camera_name \<notin> set [''outer'', ''upper''] \<longrightarrow>
      load_default_bolometer_config geometry sxd core assemble bolometer_id shot =
        Inl sxdl_camera_error)
   \<and> (map strip (split_on CHR ''-'' bolometer_id) = [chamber, camera_name]
        \<and> lower chamber = ''core'' \<and> geometry ''/bolo/core'' shot = Inr g
        \<and> lower camera_name \<notin> set [''poloidal'', ''tangential''] \<longrightarrow>
      load_default_bolometer_config geometry sxd core assemble bolometer_id shot =
        Inl core_camera_error)
   \<and> (map strip (split_on CHR ''-'' bolometer_id) = [chamber, camera_name]
        \<and> lower chamber \<in> set [''sxdl'', ''core'']
        \<and> geometry (''/bolo/'' @ lower chamber) shot = Inl e \<longrightarrow>
      load_default_bolometer_config geometry sxd core assemble bolometer_id shot =
        Inl (if is_AttributeError e then uda_error else e))
   \<and> (1 < length argv
        \<and> argv ! 1 \<notin> set [''Outer'', ''Upper'', ''Poloidal'', ''Tangential'',
             ''PoloidalHighRes'', ''TangentialHighRes'', ''Poloidal-MAST''] \<longrightarrow>
      main argv calculate = Inl camera_error)
   \<and> raises_ValueError (Inl (unpack_error k) :: error + unit)
   \<and> raises_ValueError (Inl chamber_error :: error + unit)
   \<and> raises_ValueError (Inl sxdl_camera_error :: error + unit)
   \<and> raises_ValueError (Inl core_camera_error :: error + unit)
   \<and> raises_ValueError (Inl camera_error :: error + unit)"
proof (intro conjI impI)
  show "raises_ValueError (Inl (unpack_error k) :: error + unit)"
    "raises_ValueError (Inl chamber_error :: error + unit)"
    "raises_ValueError (Inl sxdl_camera_error :: error + unit)"
    "raises_ValueError (Inl core_camera_error :: error + unit)"
    "raises_ValueError (Inl camera_error :: error + unit)"
    by (simp_all add: raises_ValueError_def unpack_error_def chamber_error_def
        sxdl_camera_error_def core_camera_error_def camera_error_def)
next
  assume "length (split_on CHR ''-'' bolometer_id) \<noteq> 2"
  then show "load_default_bolometer_config geometry sxd core assemble bolometer_id shot =
        Inl (unpack_error (length (split_on CHR ''-'' bolometer_id)))"
    by (rule load_unpack)
next
  assume "map strip (split_on CHR ''-'' bolometer_id) = [chamber, camera_name]
        \<and> lower chamber \<notin> set [''sxdl'', ''core'']"
  then show "load_default_bolometer_config geometry sxd core assemble bolometer_id shot =
        Inl chamber_error"
    by (elim conjE) (rule load_chamber)
next
  assume "map strip (split_on CHR ''-'' bolometer_id) = [chamber, camera_name]
        \<and> lower chamber = ''sxdl'' \<and> geometry ''/bolo/sxdl'' shot = Inr g
        \<and> lower camera_name \<notin> set [''outer'', ''upper'']"
  then show "load_default_bolometer_config geometry sxd core assemble bolometer_id shot =
        Inl sxdl_camera_error"
    by (elim conjE) (rule load_sxdl_camera)
next
  assume "map strip (split_on CHR ''-'' bolometer_id) = [chamber, camera_name]
        \<and> lower chamber = ''core'' \<and> geometry ''/bolo/core'' shot = Inr g
        \<and> lower camera_name \<notin> set [''poloidal'', ''tangential'']"
  then show "load_default_bolometer_config geometry sxd core assemble bolometer_id shot =
        Inl core_camera_error"
    by (elim conjE) (rule load_core_camera)
next
  assume "map strip (split_on CHR ''-'' bolometer_id) = [chamber, camera_name]
        \<and> lower chamber \<in> set [''sxdl'', ''core'']
        \<and> geometry (''/bolo/'' @ lower chamber) shot = Inl e"
  then show "load_default_bolometer_config geometry sxd core assemble bolometer_id shot =
        Inl (if is_AttributeError e then uda_error else e)"
    by (elim conjE) (rule load_query_fails)
next
  assume "1 < length argv
        \<and> argv ! 1 \<notin> set [''Outer'', ''Upper'', ''Poloidal'', ''Tangential'',
             ''PoloidalHighRes'', ''TangentialHighRes'', ''Poloidal-MAST'']"
  then show "main argv calculate = Inl camera_error"
    by (elim conjE) (rule main_unknown_camera)
qed

theorem configuration_errors_witness:
  "length (split_on CHR ''-'' ''Outer'') \<noteq> 2
   \<and> raises_ValueError (load_default_bolometer_config geometry_up [] [] assemble_any
        ''Outer'' 50000)
   \<and> map strip (split_on CHR ''-'' ''SXD - Outer'') = [''SXD'', ''Outer'']
   \<and> lower ''SXD'' \<notin> set [''sxdl'', ''core'']
   \<and> load_default_bolometer_config geometry_up [] [] assemble_any
        ''SXD - Outer'' 50000 = Inl chamber_error
   \<and> map strip (split_on CHR ''-'' ''SXDL - Foo'') = [''SXDL'', ''Foo'']
   \<and> lower ''SXDL'' = ''sxdl''
   \<and> geometry_up ''/bolo/sxdl'' 50000 = Inr ()
   \<and> lower ''Foo'' \<notin> set [''outer'', ''upper'']
   \<and> load_default_bolometer_config geometry_up [] [] assemble_any
        ''SXDL - Foo'' 50000 = Inl sxdl_camera_error
   \<and> map strip (split_on CHR ''-'' ''Core - Outer'') = [''Core'', ''Outer'']
   \<and> lower ''Core'' = ''core''
   \<and> geometry_up ''/bolo/core'' 50000 = Inr ()
   \<and> lower ''Outer'' \<notin> set [''poloidal'', ''tangential'']
   \<and> load_default_bolometer_config geometry_up [] [] assemble_any
        ''Core - Outer'' 50000 = Inl core_camera_error
   \<and> geometry_down (''/bolo/'' @ lower ''SXDL'') 50000 = Inl (UDAException (Text ''no server''))
   \<and> \<not> is_AttributeError (UDAException (Text ''no server''))
   \<and> load_default_bolometer_config geometry_down [] [] assemble_any
        ''SXDL - Foo'' 50000 = Inl (UDAException (Text ''no server''))
   \<and> geometry_broken (''/bolo/'' @ lower ''SXDL'') 50000 = Inl (AttributeError (Text ''data''))
   \<and> is_AttributeError (AttributeError (Text ''data''))
   \<and> load_default_bolometer_config geometry_broken [] [] assemble_any
        ''SXDL - Foo'' 50000 = Inl uda_error
   \<and> 1 < length [''rtm_sensitivities.py'', ''Inner'']
   \<and> [''rtm_sensitivities.py'', ''Inner''] ! 1
        \<notin> set [''Outer'', ''Upper'', ''Poloidal'', ''Tangential'',
             ''PoloidalHighRes'', ''TangentialHighRes'', ''Poloidal-MAST'']
   \<and> main [''rtm_sensitivities.py'', ''Inner''] calculate_any = Inl camera_error"
proof -
  note c = configuration_errors [where sxd = "[]" and core = "[]"
      and assemble = assemble_any and shot = 50000 and g = "()"
      and argv = "[''rtm_sensitivities.py'', ''Inner'']" and calculate = calculate_any
      and k = 1]
  note up = c [where geometry = geometry_up and e = "UDAException (Text ''no server'')"]
  note ids = strip_def isspace_def lower_ids
  have parts: "map strip (split_on CHR ''-'' ''SXDL - Foo'') = [''SXDL'', ''Foo'']"
    by (simp add: ids)
  have "load_default_bolometer_config geometry_down [] [] assemble_any
        ''SXDL - Foo'' 50000 = Inl (UDAException (Text ''no server''))"
    using c [where geometry = geometry_down and e = "UDAException (Text ''no server'')"
        and bolometer_id = "''SXDL - Foo''" and chamber = "''SXDL''" and camera_name = "''Foo''"]
      parts
    by (simp add: lower_ids geometry_down_def is_AttributeError_def)
  moreover have "load_default_bolometer_config geometry_broken [] [] assemble_any
        ''SXDL - Foo'' 50000 = Inl uda_error"
    using c [where geometry = geometry_broken and e = "AttributeError (Text ''data'')"
        and bolometer_id = "''SXDL - Foo''" and chamber = "''SXDL''" and camera_name = "''Foo''"]
      parts
    by (simp add: lower_ids geometry_broken_def is_AttributeError_def)
  ultimately show ?thesis
    using up [where bolometer_id = "''Outer''" and chamber = "[]" and camera_name = "[]"]
      up [where bolometer_id = "''SXD - Outer''" and chamber = "''SXD''" and camera_name = "''Outer''"]
      up [where bolometer_id = "''SXDL - Foo''" and chamber = "''SXDL''" and camera_name = "''Foo''"]
      up [where bolometer_id = "''Core - Outer''" and chamber = "''Core''" and camera_name = "''Outer''"]
    by (simp add: ids geometry_up_def geometry_down_def geometry_broken_def
        is_AttributeError_def)
qed

section \<open>The pulse ranges of the constructors\<close>

text \<open>
  Claim C10: \<open>MASTEquilibrium.__init__\<close> raises a ValueError for every pulse number from
  40000 on, whatever the archive holds, hence before reading it;
  \<open>MASTUEquilibrium.__init__\<close> raises a ValueError for every integer pulse below 40000;
  and a pulse that is not an integer never meets that test: the constructor is then
  the loading of the signals alone.
\<close>

theorem constructors_guard_pulse:
  "(40000 \<le> n \<longrightarrow> mast_init fetch (PyInt n) = Inl mast_pulse_error)
   \<and> (40000 \<le> x \<longrightarrow> mast_init fetch (PyFloat x) = Inl mast_pulse_error)
   \<and> (n' < 40000 \<longrightarrow> mastu_init fetch_psi fetch_rest (PyInt n') = Inl mastu_pulse_error)
   \<and> (\<not> isinstance_int pulse \<longrightarrow>
        mastu_init fetch_psi fetch_rest pulse = mastu_load fetch_psi fetch_rest pulse)
   \<and> raises_ValueError (Inl mast_pulse_error :: error + unit)
   \<and> raises_ValueError (Inl mastu_pulse_error :: error + unit)"
  by (simp add: mast_init_def mastu_init_def sbind_def raises_ValueError_def
      mast_pulse_error_def mastu_pulse_error_def)

theorem constructors_guard_pulse_witness:
  "(40000 :: int) \<le> 45000
   \<and> mast_init ex_mast_archive (PyInt 45000) = Inl mast_pulse_error
   \<and> (40000 :: real) \<le> 45000
   \<and> mast_init ex_mast_archive (PyFloat 45000) = Inl mast_pulse_error
   \<and> (30000 :: int) < 40000
   \<and> mastu_init ex_mastu_flux ex_mastu_archive (PyInt 30000) = Inl mastu_pulse_error
   \<and> \<not> isinstance_int (PyFloat 100)
   \<and> mastu_init ex_mastu_flux ex_mastu_archive (PyFloat 100) = Inr ex_mastu"
  using constructors_guard_pulse [of 45000 ex_mast_archive 45000 30000
      ex_mastu_flux ex_mastu_archive "PyFloat 100"]
    ex_mastu_load_float
  by simp

end
